theory Spec2Isabelle
  imports Complex_Main "HOL-Library.AList"
begin

section \<open>Python values and exceptions\<close>

text \<open>
  The sensor handles whatever \<^verbatim>\<open>response.json()\<close> returns, so the model carries the
  dynamically typed values a JSON document parses to. A dict is an association list in
  insertion order. A finite float \<open>PFloat q\<close> is represented by the rational number it
  denotes: comparisons and \<^verbatim>\<open>round(x)\<close> are exact on that number; the binary
  representation of the result of \<^verbatim>\<open>round(x, 5)\<close> is not represented. The non-finite
  floats are values of their own: the decoder yields them for the literals
  \<^verbatim>\<open>Infinity\<close>, \<^verbatim>\<open>-Infinity\<close> and \<^verbatim>\<open>NaN\<close> and for numbers beyond the range of a
  double, such as \<^verbatim>\<open>1e999\<close>.
\<close>

datatype pyval =
    PNone
  | PBool bool
  | PInt int
  | PFloat rat
  | PInfinity
  | PNegInfinity
  | PNaN
  | PStr string
  | PList "pyval list"
  | PDict "(string \<times> pyval) list"

text \<open>
  The exceptions that occur in \<^verbatim>\<open>sensor.py\<close>. \<open>ConnectionError\<close>, \<open>Timeout\<close> and
  \<open>HTTPError\<close> are subclasses of \<^verbatim>\<open>requests.exceptions.RequestException\<close>.
  \<open>JSONDecodeError\<close> is the decoder's own exception, a \<^verbatim>\<open>ValueError\<close>;
  \<open>RequestsJSONDecodeError\<close> is the class newer releases of the HTTP library raise
  instead, which is a \<^verbatim>\<open>RequestException\<close> and a \<^verbatim>\<open>ValueError\<close> at once.
  \<open>OverflowError\<close> and the plain \<open>ValueError\<close> are what \<^verbatim>\<open>round\<close> raises for an
  infinity and for a NaN.
\<close>

datatype exn =
    ConnectionError
  | Timeout
  | HTTPError nat
  | RequestsJSONDecodeError
  | JSONDecodeError
  | KeyError string
  | TypeError
  | IndexError
  | OverflowError
  | ValueError

fun isinstance_RequestException :: "exn \<Rightarrow> bool" where
  "isinstance_RequestException ConnectionError = True"
| "isinstance_RequestException Timeout = True"
| "isinstance_RequestException (HTTPError _) = True"
| "isinstance_RequestException RequestsJSONDecodeError = True"
| "isinstance_RequestException _ = False"

fun isinstance_ValueError :: "exn \<Rightarrow> bool" where
  "isinstance_ValueError RequestsJSONDecodeError = True"
| "isinstance_ValueError JSONDecodeError = True"
| "isinstance_ValueError ValueError = True"
| "isinstance_ValueError _ = False"

fun isinstance_KeyError :: "exn \<Rightarrow> bool" where
  "isinstance_KeyError (KeyError _) = True"
| "isinstance_KeyError _ = False"

text \<open>Sequencing of two steps either of which may raise.\<close>

definition and_then :: "exn + 'a \<Rightarrow> ('a \<Rightarrow> exn + 'b) \<Rightarrow> exn + 'b" where
  "and_then r f = (case r of Inl ex \<Rightarrow> Inl ex | Inr v \<Rightarrow> f v)"

text \<open>Truth value testing, as in \<^verbatim>\<open>if result:\<close> and \<^verbatim>\<open>if vehicles:\<close>.\<close>

fun truthy :: "pyval \<Rightarrow> bool" where
  "truthy PNone = False"
| "truthy (PBool b) = b"
| "truthy (PInt n) = (n \<noteq> 0)"
| "truthy (PFloat q) = (q \<noteq> 0)"
| "truthy PInfinity = True"
| "truthy PNegInfinity = True"
| "truthy PNaN = True"
| "truthy (PStr s) = (s \<noteq> [])"
| "truthy (PList xs) = (xs \<noteq> [])"
| "truthy (PDict d) = (d \<noteq> [])"

text \<open>
  Subscription with a string key, \<^verbatim>\<open>v["key"]\<close>: a dict looks the key up and raises
  \<^verbatim>\<open>KeyError\<close> when it is absent; every other value raises \<^verbatim>\<open>TypeError\<close> (a list
  or a string wants an integer index, the rest are not subscriptable).
\<close>

fun py_getitem :: "pyval \<Rightarrow> string \<Rightarrow> exn + pyval" where
  "py_getitem (PDict d) k = (case map_of d k of None \<Rightarrow> Inl (KeyError k) | Some v \<Rightarrow> Inr v)"
| "py_getitem _ k = Inl TypeError"

text \<open>Item assignment with a string key, \<^verbatim>\<open>v["key"] = x\<close>, returning the updated value.\<close>

fun py_setitem :: "pyval \<Rightarrow> string \<Rightarrow> pyval \<Rightarrow> exn + pyval" where
  "py_setitem (PDict d) k x = Inr (PDict (AList.update k x d))"
| "py_setitem _ k x = Inl TypeError"

text \<open>
  What a \<^verbatim>\<open>for\<close> loop iterates over: the elements of a list, the keys of a dict, the
  characters of a string; anything else is not iterable.
\<close>

fun py_iter :: "pyval \<Rightarrow> exn + pyval list" where
  "py_iter (PList xs) = Inr xs"
| "py_iter (PDict d) = Inr (map (\<lambda>kv. PStr (fst kv)) d)"
| "py_iter (PStr s) = Inr (map (\<lambda>c. PStr [c]) s)"
| "py_iter _ = Inl TypeError"

text \<open>
  The numeric value of an int, a finite float or a bool (a bool is an int in Python).
\<close>

fun numeric :: "pyval \<Rightarrow> rat option" where
  "numeric (PInt n) = Some (of_int n)"
| "numeric (PFloat q) = Some q"
| "numeric (PBool b) = Some (if b then 1 else 0)"
| "numeric _ = None"

text \<open>
  Python 3 rounds to the nearest value and, exactly half way, to the even neighbour.
\<close>

definition round_half_even :: "rat \<Rightarrow> int" where
  "round_half_even x =
     (let f = \<lfloor>x\<rfloor>; d = x - of_int f
      in if d < 1 / 2 then f
         else if 1 / 2 < d then f + 1
         else if even f then f else f + 1)"

text \<open>
  \<^verbatim>\<open>round(x)\<close>: an int for every finite number; an infinity raises
  \<^verbatim>\<open>OverflowError\<close> and a NaN raises \<^verbatim>\<open>ValueError\<close>; everything that is not a number
  raises \<^verbatim>\<open>TypeError\<close>.
\<close>

fun py_round :: "pyval \<Rightarrow> exn + pyval" where
  "py_round (PInt n) = Inr (PInt n)"
| "py_round (PBool b) = Inr (PInt (if b then 1 else 0))"
| "py_round (PFloat q) = Inr (PInt (round_half_even q))"
| "py_round PInfinity = Inl OverflowError"
| "py_round PNegInfinity = Inl OverflowError"
| "py_round PNaN = Inl ValueError"
| "py_round _ = Inl TypeError"

text \<open>
  \<^verbatim>\<open>round(x, ndigits)\<close> for \<open>ndigits \<ge> 0\<close>: a finite float is rounded at that decimal
  place and stays a float, an int is returned as it is, and an infinity or a NaN rounds
  to itself.
\<close>

fun py_round_ndigits :: "pyval \<Rightarrow> nat \<Rightarrow> exn + pyval" where
  "py_round_ndigits (PInt n) k = Inr (PInt n)"
| "py_round_ndigits (PBool b) k = Inr (PInt (if b then 1 else 0))"
| "py_round_ndigits (PFloat q) k = Inr (PFloat (of_int (round_half_even (q * 10 ^ k)) / 10 ^ k))"
| "py_round_ndigits PInfinity k = Inr PInfinity"
| "py_round_ndigits PNegInfinity k = Inr PNegInfinity"
| "py_round_ndigits PNaN k = Inr PNaN"
| "py_round_ndigits _ k = Inl TypeError"

section \<open>The outside world\<close>

text \<open>
  The HTTP library and the network are not part of the sources. A request is identified
  by what \<open>get_vehicles\<close> puts into it (the three query parameters of the resource and
  the key header); what the network does with one request is a \<open>transport\<close>: no
  connection, no answer within the timeout, or a response with a status code and a body
  that either parses as JSON or does not (\<open>MalformedWrapped\<close> when the installed library
  reports that with its own exception class). The library is taken to raise what it
  documents: a \<^verbatim>\<open>RequestException\<close> from the request and from \<^verbatim>\<open>raise_for_status\<close>,
  and a decoding error from \<^verbatim>\<open>json\<close>.
\<close>

record request =
  lat :: rat
  lng :: rat
  rad :: rat
  x_api_key :: string

datatype body = Parsed pyval | Malformed | MalformedWrapped

datatype transport = ConnectionFailed | TimedOut | Response nat body

datatype log_msg =
    ErrorFetching request exn
  | ErrorParsing request exn
  | ErroneousResult exn
  | EmptyResult

text \<open>
  The observable effects: the requests sent, in order, and the records written to the
  logger (every call in the source is \<^verbatim>\<open>_LOGGER.error\<close>).
\<close>

record world =
  requests :: "request list"
  error_log :: "log_msg list"

definition log_error :: "log_msg \<Rightarrow> world \<Rightarrow> world" where
  "log_error m w = w\<lparr>error_log := error_log w @ [m]\<rparr>"

definition requests_get :: "transport \<Rightarrow> exn + (nat \<times> body)" where
  "requests_get net =
     (case net of
        ConnectionFailed \<Rightarrow> Inl ConnectionError
      | TimedOut \<Rightarrow> Inl Timeout
      | Response status_code b \<Rightarrow> Inr (status_code, b))"

text \<open>\<^verbatim>\<open>raise_for_status\<close> raises for the client and server error codes, 400 to 599.\<close>

definition raise_for_status :: "nat \<times> body \<Rightarrow> exn + unit" where
  "raise_for_status response =
     (if 400 \<le> fst response \<and> fst response < 600 then Inl (HTTPError (fst response))
      else Inr ())"

definition response_json :: "nat \<times> body \<Rightarrow> exn + pyval" where
  "response_json response =
     (case snd response of
        Parsed v \<Rightarrow> Inr v
      | Malformed \<Rightarrow> Inl JSONDecodeError
      | MalformedWrapped \<Rightarrow> Inl RequestsJSONDecodeError)"

section \<open>TierNearestScooterApi\<close>

text \<open>
  \<open>get_vehicles\<close> (lines 68 to 86): one request, then the two \<^verbatim>\<open>except\<close> clauses in
  their order. Python's \<^verbatim>\<open>None\<close> result is \<open>PNone\<close>. An exception of neither class
  would propagate.
\<close>

definition get_vehicles ::
  "string \<Rightarrow> transport \<Rightarrow> rat \<Rightarrow> rat \<Rightarrow> rat \<Rightarrow> world \<Rightarrow> (exn + pyval) \<times> world" where
  "get_vehicles key net latitude_arg longitude_arg radius_arg w =
     (let resource = \<lparr>lat = latitude_arg, lng = longitude_arg, rad = radius_arg, x_api_key = key\<rparr>;
          w1 = w\<lparr>requests := requests w @ [resource]\<rparr>
      in case and_then (requests_get net)
                (\<lambda>response. and_then (raise_for_status response) (\<lambda>_. response_json response)) of
           Inr v \<Rightarrow> (Inr v, w1)
         | Inl ex \<Rightarrow>
             if isinstance_RequestException ex
               then (Inr PNone, log_error (ErrorFetching resource ex) w1)
             else if isinstance_ValueError ex
               then (Inr PNone, log_error (ErrorParsing resource ex) w1)
             else (Inl ex, w1))"

section \<open>TierNearestScooterSensor\<close>

text \<open>
  The constants of the host framework that the sensor uses as attribute keys, and the
  module's own constants.
\<close>

definition ATTR_LATITUDE :: string where "ATTR_LATITUDE = ''latitude''"
definition ATTR_LONGITUDE :: string where "ATTR_LONGITUDE = ''longitude''"
definition ATTR_BATTERY_LEVEL :: string where "ATTR_BATTERY_LEVEL = ''battery_level''"
definition ATTR_ATTRIBUTION :: string where "ATTR_ATTRIBUTION = ''attribution''"
definition ATTRIBUTION :: string where "ATTRIBUTION = ''Data provided by Tier''"

record sensor =
  api_key :: string
  name :: string
  latitude :: rat
  longitude :: rat
  radius :: rat
  state :: pyval
  attributes :: "(string \<times> pyval) list"

definition TierNearestScooterSensor :: "string \<Rightarrow> string \<Rightarrow> rat \<Rightarrow> rat \<Rightarrow> rat \<Rightarrow> sensor" where
  "TierNearestScooterSensor api nm la lo r =
     \<lparr>api_key = api, name = nm, latitude = la, longitude = lo, radius = r,
      state = PNone, attributes = []\<rparr>"

text \<open>
  The host framework's \<^verbatim>\<open>distance(lat1, lon1, lat2, lon2)\<close> is not part of the sources
  and is a parameter of the model: it returns a finite float or \<^verbatim>\<open>None\<close>, or raises.
\<close>

type_synonym distance_fn = "pyval \<Rightarrow> pyval \<Rightarrow> rat \<Rightarrow> rat \<Rightarrow> exn + rat option"

definition py_of_distance :: "rat option \<Rightarrow> pyval" where
  "py_of_distance d = (case d of None \<Rightarrow> PNone | Some q \<Rightarrow> PFloat q)"

text \<open>
  Lines 136 to 144: the vehicles of a truthy result are its \<^verbatim>\<open>"data"\<close> item, and only a
  \<^verbatim>\<open>KeyError\<close> is caught there; a falsy result is logged. In both logged cases
  \<open>vehicles\<close> keeps its initial value, the empty dict.
\<close>

definition read_vehicles :: "pyval \<Rightarrow> world \<Rightarrow> (exn + pyval) \<times> world" where
  "read_vehicles result w =
     (if truthy result then
        (case py_getitem result ''data'' of
           Inr v \<Rightarrow> (Inr v, w)
         | Inl ex \<Rightarrow>
             if isinstance_KeyError ex then (Inr (PDict []), log_error (ErroneousResult ex) w)
             else (Inl ex, w))
      else (Inr (PDict []), log_error EmptyResult w))"

text \<open>
  Lines 148 to 150, the body of the loop for one vehicle: the arguments are evaluated
  left to right, then the distance is stored in the vehicle.
\<close>

definition set_distance :: "distance_fn \<Rightarrow> rat \<Rightarrow> rat \<Rightarrow> pyval \<Rightarrow> exn + pyval" where
  "set_distance distance la lo vehicle =
     and_then (py_getitem vehicle ''lat'') (\<lambda>vlat.
     and_then (py_getitem vehicle ''lng'') (\<lambda>vlng.
     and_then (distance vlat vlng la lo) (\<lambda>d.
     py_setitem vehicle ''distance'' (py_of_distance d))))"

text \<open>Lines 147 to 150, the loop: it stops at the first vehicle that raises.\<close>

fun set_distances :: "distance_fn \<Rightarrow> rat \<Rightarrow> rat \<Rightarrow> pyval list \<Rightarrow> exn + pyval list" where
  "set_distances distance la lo [] = Inr []"
| "set_distances distance la lo (vehicle # rest) =
     (case set_distance distance la lo vehicle of
        Inl ex \<Rightarrow> Inl ex
      | Inr v \<Rightarrow>
         (case set_distances distance la lo rest of
            Inl ex \<Rightarrow> Inl ex
          | Inr vs \<Rightarrow> Inr (v # vs)))"

text \<open>The key function of line 152 applied to every item, as \<^verbatim>\<open>sorted\<close> does first.\<close>

fun distance_keys :: "pyval list \<Rightarrow> exn + pyval list" where
  "distance_keys [] = Inr []"
| "distance_keys (item # rest) =
     (case py_getitem item ''distance'' of
        Inl ex \<Rightarrow> Inl ex
      | Inr k \<Rightarrow>
         (case distance_keys rest of
            Inl ex \<Rightarrow> Inl ex
          | Inr ks \<Rightarrow> Inr (k # ks)))"

text \<open>
  \<^verbatim>\<open>sorted(vehicles, key=lambda item: item["distance"])\<close>. Python's sort is stable, and
  the stable sorted arrangement of a list is unique, so \<open>sort_key\<close> (a stable insertion
  sort) returns what Python returns. Fewer than two items are never compared. With two
  or more, every key takes part in a comparison, and comparing \<^verbatim>\<open>None\<close> with anything
  raises \<^verbatim>\<open>TypeError\<close>. The keys are the values the loop has just stored, floats or
  \<^verbatim>\<open>None\<close>; keys of other types, some of which Python can order, do not occur.
\<close>

definition sorted_by_distance :: "pyval list \<Rightarrow> exn + pyval list" where
  "sorted_by_distance items =
     (case distance_keys items of
        Inl ex \<Rightarrow> Inl ex
      | Inr ks \<Rightarrow>
          if length items < 2 then Inr items
          else (case those (map numeric ks) of
                  None \<Rightarrow> Inl TypeError
                | Some qs \<Rightarrow> Inr (map snd (sort_key fst (zip qs items)))))"

text \<open>
  Lines 147 to 152: the loop over \<open>vehicles\<close>, then the first item of the sorted list.
  Only a list gets past the loop (the items of a string or of a dict are strings, which
  raise in the loop's first round), and its items then are the updated vehicles.
  Subscripting an empty sorted list with \<open>[0]\<close> would raise \<^verbatim>\<open>IndexError\<close>.
\<close>

definition nearest :: "distance_fn \<Rightarrow> rat \<Rightarrow> rat \<Rightarrow> pyval \<Rightarrow> exn + pyval" where
  "nearest distance la lo vehicles =
     and_then (py_iter vehicles) (\<lambda>items.
     and_then (set_distances distance la lo items) (\<lambda>items'.
     and_then (sorted_by_distance items') (\<lambda>ordered.
       case ordered of [] \<Rightarrow> Inl IndexError | scooter # _ \<Rightarrow> Inr scooter)))"

text \<open>
  Lines 154 to 158: five assignments in order. When one raises, the assignments before
  it have happened.
\<close>

definition set_attribute :: "string \<Rightarrow> pyval \<Rightarrow> sensor \<Rightarrow> sensor" where
  "set_attribute k v s = s\<lparr>attributes := AList.update k v (attributes s)\<rparr>"

definition report :: "pyval \<Rightarrow> sensor \<Rightarrow> (exn + unit) \<times> sensor" where
  "report scooter s =
     (case and_then (py_getitem scooter ''distance'') py_round of
        Inl ex \<Rightarrow> (Inl ex, s)
      | Inr d \<Rightarrow>
     let s1 = s\<lparr>state := d\<rparr> in
     (case and_then (py_getitem scooter ''lat'') (\<lambda>x. py_round_ndigits x 5) of
        Inl ex \<Rightarrow> (Inl ex, s1)
      | Inr vlat \<Rightarrow>
     let s2 = set_attribute ATTR_LATITUDE vlat s1 in
     (case and_then (py_getitem scooter ''lng'') (\<lambda>x. py_round_ndigits x 5) of
        Inl ex \<Rightarrow> (Inl ex, s2)
      | Inr vlng \<Rightarrow>
     let s3 = set_attribute ATTR_LONGITUDE vlng s2 in
     (case and_then (py_getitem scooter ''batteryLevel'') py_round of
        Inl ex \<Rightarrow> (Inl ex, s3)
      | Inr level \<Rightarrow>
     let s4 = set_attribute ATTR_BATTERY_LEVEL level s3 in
     (Inr (), set_attribute ATTR_ATTRIBUTION (PStr ATTRIBUTION) s4)))))"

text \<open>
  The body of \<open>update\<close> (lines 130 to 158), for one call that the throttle lets through.
  \<open>net\<close> is what the network does with the request of this call. The result is
  \<open>Inr ()\<close> when the method returns and \<open>Inl ex\<close> when \<open>ex\<close> escapes to the caller,
  with the sensor and the world as they are at that moment.
\<close>

definition update :: "distance_fn \<Rightarrow> transport \<Rightarrow> sensor \<times> world \<Rightarrow> (exn + unit) \<times> sensor \<times> world" where
  "update distance net sw =
     (let s0 = (fst sw)\<lparr>attributes := [], state := PNone\<rparr>;
          (fetched, w1) = get_vehicles (api_key s0) net (latitude s0) (longitude s0) (radius s0) (snd sw)
      in case fetched of
           Inl ex \<Rightarrow> (Inl ex, s0, w1)
         | Inr result \<Rightarrow>
            (case read_vehicles result w1 of
               (Inl ex, w2) \<Rightarrow> (Inl ex, s0, w2)
             | (Inr vehicles, w2) \<Rightarrow>
                 if truthy vehicles then
                   (case nearest distance (latitude s0) (longitude s0) vehicles of
                      Inl ex \<Rightarrow> (Inl ex, s0, w2)
                    | Inr scooter \<Rightarrow>
                        (case report scooter s0 of (r, s1) \<Rightarrow> (r, s1, w2)))
                 else (Inr (), s0, w2)))"

section \<open>The throttle\<close>

definition MIN_TIME_BETWEEN_UPDATES :: int where
  \<comment> \<open>\<^verbatim>\<open>timedelta(minutes=10)\<close>, in microseconds, the resolution of the clock\<close>
  "MIN_TIME_BETWEEN_UPDATES = 10 * 60 * 1000000"

text \<open>
  Modelled from the spec: the \<^verbatim>\<open>Throttle\<close> decorator of line 127 belongs to the host
  framework and is not part of the sources. The specification describes it as an explicit
  guard: the time stamp of the last invocation is stored, and at call entry it is compared
  with the current time; the call is suppressed when the elapsed time is under the
  threshold. Before the first call there is no stamp, and nothing is suppressed.
\<close>

definition suppressed :: "int option \<Rightarrow> int \<Rightarrow> bool" where
  "suppressed stamp now =
     (case stamp of None \<Rightarrow> False | Some t \<Rightarrow> now - t < MIN_TIME_BETWEEN_UPDATES)"

text \<open>
  Modelled from the spec: a suppressed call skips the body, changes nothing and is not
  queued; a call that is let through runs the body of \<open>update\<close>, and when it has completed
  its time of invocation \<open>now\<close> becomes the stamp. A call whose body raises has not
  completed and leaves the stamp as it was. The stamp is kept next to the sensor.
\<close>

definition throttled_update ::
  "distance_fn \<Rightarrow> transport \<Rightarrow> int \<Rightarrow> int option \<times> sensor \<times> world
     \<Rightarrow> (exn + unit) \<times> int option \<times> sensor \<times> world" where
  "throttled_update distance net now tsw =
     (case tsw of (stamp, s, w) \<Rightarrow>
        if suppressed stamp now
        then (Inr (), stamp, s, w)
        else (case update distance net (s, w) of
                (Inr u, s', w') \<Rightarrow> (Inr u, Some now, s', w')
              | (Inl ex, s', w') \<Rightarrow> (Inl ex, stamp, s', w')))"

section \<open>Notions used in the statements\<close>

text \<open>The request that a sensor sends.\<close>

definition request_of :: "sensor \<Rightarrow> request" where
  "request_of s = \<lparr>lat = latitude s, lng = longitude s, rad = radius s, x_api_key = api_key s\<rparr>"

text \<open>
  A fetch fails when there is no connection, no answer in time, an error status, or a
  body that does not parse.
\<close>

definition error_status :: "nat \<Rightarrow> bool" where
  "error_status st \<longleftrightarrow> 400 \<le> st \<and> st < 600"

fun fetch_failure :: "transport \<Rightarrow> bool" where
  "fetch_failure ConnectionFailed = True"
| "fetch_failure TimedOut = True"
| "fetch_failure (Response st (Parsed v)) = error_status st"
| "fetch_failure (Response st _) = True"

text \<open>
  The distance computed for a vehicle: defined when the vehicle is an object with the
  items \<^verbatim>\<open>lat\<close> and \<^verbatim>\<open>lng\<close> for which the framework's function returns a float.
\<close>

definition vehicle_distance :: "distance_fn \<Rightarrow> rat \<Rightarrow> rat \<Rightarrow> pyval \<Rightarrow> rat option" where
  "vehicle_distance distance la lo vehicle =
     (case and_then (py_getitem vehicle ''lat'') (\<lambda>vlat.
           and_then (py_getitem vehicle ''lng'') (\<lambda>vlng. distance vlat vlng la lo)) of
        Inr (Some q) \<Rightarrow> Some q
      | _ \<Rightarrow> None)"

text \<open>
  The attributes that describe a vehicle: its coordinates rounded to five places, its
  battery level rounded to an integer, and the attribution. Defined when the three items
  are there and are numbers.
\<close>

definition vehicle_attributes :: "pyval \<Rightarrow> (string \<times> pyval) list option" where
  "vehicle_attributes vehicle =
     (case (and_then (py_getitem vehicle ''lat'') (\<lambda>x. py_round_ndigits x 5),
            and_then (py_getitem vehicle ''lng'') (\<lambda>x. py_round_ndigits x 5),
            and_then (py_getitem vehicle ''batteryLevel'') py_round) of
        (Inr a, Inr b, Inr c) \<Rightarrow>
          Some [(ATTR_LATITUDE, a), (ATTR_LONGITUDE, b), (ATTR_BATTERY_LEVEL, c),
                (ATTR_ATTRIBUTION, PStr ATTRIBUTION)]
      | _ \<Rightarrow> None)"

text \<open>
  A vehicle record as the interface describes it: an object with finite numbers under
  \<^verbatim>\<open>lat\<close>, \<^verbatim>\<open>lng\<close> and \<^verbatim>\<open>batteryLevel\<close>, for whose coordinates the framework's
  function returns a distance.
\<close>

definition vehicle_ok :: "distance_fn \<Rightarrow> rat \<Rightarrow> rat \<Rightarrow> pyval \<Rightarrow> bool" where
  "vehicle_ok distance la lo vehicle =
     (case vehicle of
        PDict d \<Rightarrow>
          (case (map_of d ''lat'', map_of d ''lng'', map_of d ''batteryLevel'') of
             (Some a, Some b, Some c) \<Rightarrow>
               numeric a \<noteq> None \<and> numeric b \<noteq> None \<and> numeric c \<noteq> None \<and>
               (case distance a b la lo of Inr (Some q) \<Rightarrow> True | _ \<Rightarrow> False)
           | _ \<Rightarrow> False)
      | _ \<Rightarrow> False)"

text \<open>
  Fetch results that \<open>update\<close> is written for: a falsy value, or an object whose
  \<^verbatim>\<open>data\<close> item, when there is one, is falsy or a list of such vehicle records.
\<close>

definition vehicles_ok :: "distance_fn \<Rightarrow> rat \<Rightarrow> rat \<Rightarrow> pyval \<Rightarrow> bool" where
  "vehicles_ok distance la lo vehicles =
     (case vehicles of
        PList vs \<Rightarrow> list_all (vehicle_ok distance la lo) vs
      | _ \<Rightarrow> \<not> truthy vehicles)"

definition result_ok :: "distance_fn \<Rightarrow> rat \<Rightarrow> rat \<Rightarrow> pyval \<Rightarrow> bool" where
  "result_ok distance la lo result =
     (case result of
        PDict d \<Rightarrow>
          (case map_of d ''data'' of
             None \<Rightarrow> True
           | Some vehicles \<Rightarrow> vehicles_ok distance la lo vehicles)
      | _ \<Rightarrow> \<not> truthy result)"


section \<open>Concrete inputs\<close>

text \<open>
  A stand-in for the framework's distance function, used where a statement is evaluated
  at a concrete input: the sum of the two coordinate differences. Like the framework's
  function it returns \<^verbatim>\<open>None\<close> for a missing coordinate and raises for anything that is
  not a finite number.
\<close>

definition grid_distance :: distance_fn where
  "grid_distance vlat vlng la lo =
     (if vlat = PNone \<or> vlng = PNone then Inr None
      else (case (numeric vlat, numeric vlng) of
              (Some a, Some b) \<Rightarrow> Inr (Some (\<bar>a - la\<bar> + \<bar>b - lo\<bar>))
            | _ \<Rightarrow> Inl TypeError))"

definition vehicle_json :: "rat \<Rightarrow> rat \<Rightarrow> int \<Rightarrow> pyval" where
  "vehicle_json a b level =
     PDict [(''id'', PStr ''scooter''), (''lat'', PFloat a), (''lng'', PFloat b),
            (''batteryLevel'', PInt level)]"

definition vehicles_json :: "pyval list \<Rightarrow> pyval" where
  "vehicles_json vs = PDict [(''data'', PList vs)]"

definition origin_sensor :: sensor where
  "origin_sensor = TierNearestScooterSensor ''key'' ''Tier Nearest Scooter'' 0 0 500"

definition fresh_world :: world where
  "fresh_world = \<lparr>requests = [], error_log = []\<rparr>"

section \<open>Auxiliary facts\<close>

subsection \<open>Sequencing and rounding\<close>

lemma and_then_Inr [simp]: "and_then (Inr v) f = f v"
  by (simp add: and_then_def)

lemma and_then_Inl [simp]: "and_then (Inl ex) f = Inl ex"
  by (simp add: and_then_def)


lemma round_half_even_near: "\<bar>of_int (round_half_even x) - x\<bar> \<le> 1 / 2"
proof -
  have "of_int \<lfloor>x\<rfloor> \<le> x" "x < of_int \<lfloor>x\<rfloor> + 1"
    by linarith+
  then show ?thesis
    by (auto simp add: round_half_even_def Let_def abs_le_iff)
qed

lemma round_places_near:
  fixes x :: rat
  shows "\<bar>of_int (round_half_even (x * 10 ^ 5)) / 10 ^ 5 - x\<bar> \<le> 1 / 200000"
proof -
  have "\<bar>of_int (round_half_even (x * 10 ^ 5)) - x * 10 ^ 5\<bar> \<le> 1 / 2"
    by (rule round_half_even_near)
  then show ?thesis
    by (simp add: abs_le_iff field_simps)
qed

lemma round_half_even_of_int [simp]: "round_half_even (of_int n) = n"
  by (simp add: round_half_even_def)

lemma round_half_even_numeral [simp]:
  "round_half_even 0 = 0" "round_half_even 1 = 1" "round_half_even (numeral v) = numeral v"
  using round_half_even_of_int [of 0] round_half_even_of_int [of 1]
    round_half_even_of_int [of "numeral v"]
  by simp_all


lemma py_round_numeric:
  assumes "numeric b = Some z"
  shows "py_round b = Inr (PInt (round_half_even z))"
  using assms by (cases b) auto

subsection \<open>The fetch\<close>

lemma get_vehicles_parsed:
  assumes "\<not> error_status st"
  shows "get_vehicles k (Response st (Parsed v)) la lo r w =
           (Inr v, w\<lparr>requests := requests w @ [\<lparr>lat = la, lng = lo, rad = r, x_api_key = k\<rparr>]\<rparr>)"
  using assms
  by (auto simp add: get_vehicles_def requests_get_def raise_for_status_def response_json_def
      error_status_def Let_def)

lemma get_vehicles_failure:
  assumes "fetch_failure net"
  shows "\<exists>m. get_vehicles k net la lo r w =
           (Inr PNone, w\<lparr>requests := requests w @ [\<lparr>lat = la, lng = lo, rad = r, x_api_key = k\<rparr>],
                          error_log := error_log w @ [m]\<rparr>)"
proof (cases net)
  case ConnectionFailed
  then show ?thesis
    by (auto simp add: get_vehicles_def requests_get_def log_error_def Let_def)
next
  case TimedOut
  then show ?thesis
    by (auto simp add: get_vehicles_def requests_get_def log_error_def Let_def)
next
  case (Response st b)
  show ?thesis
  proof (cases "error_status st")
    case True
    with Response show ?thesis
      by (auto simp add: get_vehicles_def requests_get_def raise_for_status_def log_error_def
          error_status_def Let_def)
  next
    case False
    with Response assms obtain "b = Malformed \<or> b = MalformedWrapped"
      by (cases b) simp_all
    with Response False show ?thesis
      by (auto simp add: get_vehicles_def requests_get_def raise_for_status_def
          response_json_def log_error_def error_status_def Let_def)
  qed
qed

lemma not_fetch_failure:
  assumes "\<not> fetch_failure net"
  obtains st v where "net = Response st (Parsed v)" "\<not> error_status st"
proof (cases net)
  case (Response st b)
  with assms show ?thesis
    by (cases b) (auto intro: that)
qed (use assms in simp_all)

lemma get_vehicles_requests:
  "requests (snd (get_vehicles k net la lo r w)) =
     requests w @ [\<lparr>lat = la, lng = lo, rad = r, x_api_key = k\<rparr>]"
  by (simp add: get_vehicles_def Let_def log_error_def split: sum.splits)

subsection \<open>The first of the least\<close>

lemma hd_insort_key:
  "hd (insort_key f x ys) = (if ys = [] \<or> f x \<le> f (hd ys) then x else hd ys)"
  by (cases ys) auto

lemma hd_sort_key_first_min:
  fixes f :: "'a \<Rightarrow> 'b::linorder"
  assumes "i < length xs"
    and "\<forall>j<length xs. f (xs ! i) \<le> f (xs ! j)"
    and "\<forall>j<i. f (xs ! i) < f (xs ! j)"
  shows "hd (sort_key f xs) = xs ! i"
  using assms
proof (induction xs arbitrary: i)
  case Nil
  then show ?case by simp
next
  case (Cons x xs)
  show ?case
  proof (cases i)
    case 0
    show ?thesis
    proof (cases "xs = []")
      case True
      with 0 show ?thesis by simp
    next
      case False
      then have "sort_key f xs \<noteq> []"
        by (metis length_sort length_0_conv)
      then have "hd (sort_key f xs) \<in> set xs"
        by (metis hd_in_set set_sort)
      then obtain j where "j < length xs" "hd (sort_key f xs) = xs ! j"
        by (auto simp: in_set_conv_nth)
      with Cons.prems(2) 0 have "f x \<le> f (hd (sort_key f xs))"
        by (metis Suc_less_eq length_Cons nth_Cons_0 nth_Cons_Suc)
      with 0 show ?thesis by (simp add: hd_insort_key)
    qed
  next
    case (Suc k)
    with Cons.prems have k: "k < length xs" by simp
    have le: "\<forall>j<length xs. f (xs ! k) \<le> f (xs ! j)"
      using Cons.prems(2) Suc by (metis Suc_less_eq length_Cons nth_Cons_Suc)
    have lt: "\<forall>j<k. f (xs ! k) < f (xs ! j)"
      using Cons.prems(3) Suc by (metis Suc_less_eq nth_Cons_Suc)
    have hd: "hd (sort_key f xs) = xs ! k"
      using Cons.IH [OF k le lt] .
    have "f (xs ! k) < f x"
      using Cons.prems(3) Suc by (metis nth_Cons_0 nth_Cons_Suc zero_less_Suc)
    moreover have "sort_key f xs \<noteq> []"
      using k by (metis length_sort length_0_conv less_nat_zero_code list.size(3))
    ultimately show ?thesis
      using hd Suc by (auto simp add: hd_insort_key)
  qed
qed

lemma first_minimum_exists:
  fixes qs :: "rat list"
  assumes "qs \<noteq> []"
  shows "\<exists>i<length qs. qs ! i = Min (set qs) \<and> (\<forall>j<length qs. qs ! i \<le> qs ! j) \<and>
           (\<forall>j<i. qs ! i < qs ! j)"
proof -
  let ?P = "\<lambda>n. n < length qs \<and> qs ! n = Min (set qs)"
  from assms have "Min (set qs) \<in> set qs"
    by (simp add: Min_in)
  then obtain n where "?P n"
    by (auto simp add: in_set_conv_nth)
  define i where "i = (LEAST n. ?P n)"
  have i: "?P i"
    unfolding i_def using \<open>?P n\<close> by (rule LeastI)
  have least: "\<not> ?P j" if "j < i" for j
    using that unfolding i_def by (rule not_less_Least)
  have le: "\<forall>j<length qs. qs ! i \<le> qs ! j"
    using i by (simp add: Min_le)
  have "qs ! i < qs ! j" if "j < i" for j
  proof -
    from that i have "j < length qs" by simp
    with le have "qs ! i \<le> qs ! j" by simp
    moreover from least [OF that] \<open>j < length qs\<close> i have "qs ! j \<noteq> qs ! i" by simp
    ultimately show ?thesis by simp
  qed
  with i le show ?thesis by blast
qed

subsection \<open>The loop and the sort\<close>

lemma set_distance_ok:
  assumes "vehicle_distance distance la lo v = Some q"
  shows "\<exists>v'. set_distance distance la lo v = Inr v' \<and>
              py_getitem v' ''distance'' = Inr (PFloat q) \<and>
              (\<forall>k. k \<noteq> ''distance'' \<longrightarrow> py_getitem v' k = py_getitem v k)"
proof (cases v)
  case (PDict d)
  with assms show ?thesis
    by (auto simp add: vehicle_distance_def set_distance_def py_of_distance_def update_conv'
        split: option.splits sum.splits)
qed (use assms in \<open>simp_all add: vehicle_distance_def\<close>)

lemma set_distances_ok:
  assumes "map (vehicle_distance distance la lo) vs = map Some qs"
  shows "\<exists>vs'. set_distances distance la lo vs = Inr vs' \<and> length vs' = length vs \<and>
              (\<forall>j<length vs. py_getitem (vs' ! j) ''distance'' = Inr (PFloat (qs ! j)) \<and>
                 (\<forall>k. k \<noteq> ''distance'' \<longrightarrow> py_getitem (vs' ! j) k = py_getitem (vs ! j) k))"
  using assms
proof (induction vs arbitrary: qs)
  case Nil
  then show ?case by simp
next
  case (Cons v vs)
  then obtain q qs' where qs: "qs = q # qs'"
    by (cases qs) auto
  with Cons.prems have q: "vehicle_distance distance la lo v = Some q"
    and rest: "map (vehicle_distance distance la lo) vs = map Some qs'"
    by simp_all
  from set_distance_ok [OF q] obtain v' where v':
    "set_distance distance la lo v = Inr v'"
    "py_getitem v' ''distance'' = Inr (PFloat q)"
    "\<forall>k. k \<noteq> ''distance'' \<longrightarrow> py_getitem v' k = py_getitem v k"
    by blast
  from Cons.IH [OF rest] obtain vs' where vs':
    "set_distances distance la lo vs = Inr vs'" "length vs' = length vs"
    "\<forall>j<length vs. py_getitem (vs' ! j) ''distance'' = Inr (PFloat (qs' ! j)) \<and>
        (\<forall>k. k \<noteq> ''distance'' \<longrightarrow> py_getitem (vs' ! j) k = py_getitem (vs ! j) k)"
    by blast
  have "\<forall>j<length (v # vs). py_getitem ((v' # vs') ! j) ''distance'' = Inr (PFloat (qs ! j)) \<and>
        (\<forall>k. k \<noteq> ''distance'' \<longrightarrow> py_getitem ((v' # vs') ! j) k = py_getitem ((v # vs) ! j) k)"
  proof (intro allI impI)
    fix j assume "j < length (v # vs)"
    then show "py_getitem ((v' # vs') ! j) ''distance'' = Inr (PFloat (qs ! j)) \<and>
        (\<forall>k. k \<noteq> ''distance'' \<longrightarrow> py_getitem ((v' # vs') ! j) k = py_getitem ((v # vs) ! j) k)"
      using v' vs' qs by (cases j) simp_all
  qed
  with v' vs' show ?case by simp
qed

lemma distance_keys_ok:
  assumes "length qs = length vs"
    and "\<forall>j<length vs. py_getitem (vs ! j) ''distance'' = Inr (PFloat (qs ! j))"
  shows "distance_keys vs = Inr (map PFloat qs)"
  using assms
proof (induction vs arbitrary: qs)
  case Nil
  then show ?case by simp
next
  case (Cons v vs)
  then obtain q qs' where qs: "qs = q # qs'"
    by (cases qs) auto
  with Cons.prems have "py_getitem v ''distance'' = Inr (PFloat q)"
    by auto
  moreover have "distance_keys vs = Inr (map PFloat qs')"
  proof (rule Cons.IH)
    show "length qs' = length vs" using Cons.prems qs by simp
    show "\<forall>j<length vs. py_getitem (vs ! j) ''distance'' = Inr (PFloat (qs' ! j))"
      using Cons.prems(2) qs by (metis Suc_less_eq length_Cons nth_Cons_Suc)
  qed
  ultimately show ?case using qs by simp
qed

lemma those_numeric_PFloat: "those (map (numeric \<circ> PFloat) qs) = Some qs"
  by (induction qs) simp_all

lemma sorted_by_distance_hd:
  assumes len: "length qs = length vs"
    and keys: "\<forall>j<length vs. py_getitem (vs ! j) ''distance'' = Inr (PFloat (qs ! j))"
    and i: "i < length vs"
    and le: "\<forall>j<length vs. qs ! i \<le> qs ! j"
    and lt: "\<forall>j<i. qs ! i < qs ! j"
  shows "\<exists>ordered. sorted_by_distance vs = Inr (vs ! i # ordered)"
proof (cases "length vs < 2")
  case True
  with i obtain v where "vs = [v]" and "i = 0"
    by (cases vs; cases "tl vs") simp_all
  with True distance_keys_ok [OF len keys] show ?thesis
    by (simp add: sorted_by_distance_def)
next
  case False
  let ?zs = "zip qs vs"
  have "hd (sort_key fst ?zs) = ?zs ! i"
  proof (rule hd_sort_key_first_min)
    show "i < length ?zs" using i len by simp
    show "\<forall>j<length ?zs. fst (?zs ! i) \<le> fst (?zs ! j)" using i len le by simp
    show "\<forall>j<i. fst (?zs ! i) < fst (?zs ! j)" using i len lt by simp
  qed
  moreover have "sort_key fst ?zs \<noteq> []"
    using i len by (metis length_sort length_zip less_nat_zero_code list.size(3) min.idem)
  ultimately obtain rest where "sort_key fst ?zs = (qs ! i, vs ! i) # rest"
    using i len by (cases "sort_key fst ?zs") simp_all
  with False distance_keys_ok [OF len keys] show ?thesis
    by (simp add: sorted_by_distance_def those_numeric_PFloat)
qed

lemma nearest_ok:
  assumes ds: "map (vehicle_distance distance la lo) vs = map Some qs"
    and i: "i < length vs"
    and le: "\<forall>j<length vs. qs ! i \<le> qs ! j"
    and lt: "\<forall>j<i. qs ! i < qs ! j"
  shows "\<exists>scooter. nearest distance la lo (PList vs) = Inr scooter \<and>
           py_getitem scooter ''distance'' = Inr (PFloat (qs ! i)) \<and>
           (\<forall>k. k \<noteq> ''distance'' \<longrightarrow> py_getitem scooter k = py_getitem (vs ! i) k)"
proof -
  from ds have len: "length qs = length vs"
    by (metis length_map)
  from set_distances_ok [OF ds] obtain vs' where vs':
    "set_distances distance la lo vs = Inr vs'" "length vs' = length vs"
    "\<forall>j<length vs. py_getitem (vs' ! j) ''distance'' = Inr (PFloat (qs ! j)) \<and>
        (\<forall>k. k \<noteq> ''distance'' \<longrightarrow> py_getitem (vs' ! j) k = py_getitem (vs ! j) k)"
    by blast
  have "\<exists>ordered. sorted_by_distance vs' = Inr (vs' ! i # ordered)"
  proof (rule sorted_by_distance_hd)
    show "length qs = length vs'" using len vs'(2) by simp
    show "\<forall>j<length vs'. py_getitem (vs' ! j) ''distance'' = Inr (PFloat (qs ! j))"
      using vs'(2,3) by simp
    show "i < length vs'" using i vs'(2) by simp
    show "\<forall>j<length vs'. qs ! i \<le> qs ! j" using le vs'(2) by simp
    show "\<forall>j<i. qs ! i < qs ! j" using lt .
  qed
  then obtain ordered where "sorted_by_distance vs' = Inr (vs' ! i # ordered)" ..
  with vs'(1) have "nearest distance la lo (PList vs) = Inr (vs' ! i)"
    by (simp add: nearest_def)
  with vs'(3) i show ?thesis by simp
qed

subsection \<open>The report\<close>

lemma attr_keys_distinct:
  "ATTR_LATITUDE \<noteq> ATTR_LONGITUDE" "ATTR_LATITUDE \<noteq> ATTR_BATTERY_LEVEL"
  "ATTR_LATITUDE \<noteq> ATTR_ATTRIBUTION" "ATTR_LONGITUDE \<noteq> ATTR_BATTERY_LEVEL"
  "ATTR_LONGITUDE \<noteq> ATTR_ATTRIBUTION" "ATTR_BATTERY_LEVEL \<noteq> ATTR_ATTRIBUTION"
  by (simp_all add: ATTR_LATITUDE_def ATTR_LONGITUDE_def ATTR_BATTERY_LEVEL_def
      ATTR_ATTRIBUTION_def)

lemma report_ok:
  assumes d: "py_getitem scooter ''distance'' = Inr (PFloat q)"
    and same: "\<forall>k. k \<noteq> ''distance'' \<longrightarrow> py_getitem scooter k = py_getitem v k"
    and attrs: "vehicle_attributes v = Some attrs"
    and empty: "attributes s = []"
  shows "report scooter s = (Inr (), s\<lparr>state := PInt (round_half_even q), attributes := attrs\<rparr>)"
proof -
  have k: "py_getitem scooter ''lat'' = py_getitem v ''lat''"
    "py_getitem scooter ''lng'' = py_getitem v ''lng''"
    "py_getitem scooter ''batteryLevel'' = py_getitem v ''batteryLevel''"
    using same by simp_all
  from attrs obtain a b c where abc:
    "and_then (py_getitem v ''lat'') (\<lambda>x. py_round_ndigits x 5) = Inr a"
    "and_then (py_getitem v ''lng'') (\<lambda>x. py_round_ndigits x 5) = Inr b"
    "and_then (py_getitem v ''batteryLevel'') py_round = Inr c"
    "attrs = [(ATTR_LATITUDE, a), (ATTR_LONGITUDE, b), (ATTR_BATTERY_LEVEL, c),
              (ATTR_ATTRIBUTION, PStr ATTRIBUTION)]"
    by (auto simp add: vehicle_attributes_def split: sum.splits)
  show ?thesis
    using d k abc empty attr_keys_distinct
    by (simp add: report_def set_attribute_def)
qed


subsection \<open>One cycle\<close>

lemma read_vehicles_data:
  assumes "map_of d ''data'' = Some vehicles"
  shows "read_vehicles (PDict d) w = (Inr vehicles, w)"
proof -
  from assms have "d \<noteq> []" by auto
  with assms show ?thesis by (simp add: read_vehicles_def)
qed

lemma read_vehicles_falsy:
  assumes "\<not> truthy result"
  shows "read_vehicles result w = (Inr (PDict []), log_error EmptyResult w)"
  using assms by (simp add: read_vehicles_def)

lemma read_vehicles_requests: "requests (snd (read_vehicles result w)) = requests w"
  by (simp add: read_vehicles_def log_error_def split: sum.splits)

lemma update_after_fetch:
  assumes "get_vehicles (api_key s) net (latitude s) (longitude s) (radius s) w = (Inr result, w1)"
    and "read_vehicles result w1 = (Inr vehicles, w2)"
    and "\<not> truthy vehicles"
  shows "update distance net (s, w) = (Inr (), s\<lparr>attributes := [], state := PNone\<rparr>, w2)"
  using assms by (simp add: update_def)

lemma update_nearest:
  assumes st: "\<not> error_status st"
    and data: "map_of d ''data'' = Some (PList vs)"
    and ds: "map (vehicle_distance distance (latitude s) (longitude s)) vs = map Some qs"
    and i: "i < length vs"
    and le: "\<forall>j<length vs. qs ! i \<le> qs ! j"
    and lt: "\<forall>j<i. qs ! i < qs ! j"
    and attrs: "vehicle_attributes (vs ! i) = Some attrs"
  shows "update distance (Response st (Parsed (PDict d))) (s, w) =
           (Inr (), s\<lparr>state := PInt (round_half_even (qs ! i)), attributes := attrs\<rparr>,
            w\<lparr>requests := requests w @ [request_of s]\<rparr>)"
proof -
  from nearest_ok [OF ds i le lt] obtain scooter where sc:
    "nearest distance (latitude s) (longitude s) (PList vs) = Inr scooter"
    "py_getitem scooter ''distance'' = Inr (PFloat (qs ! i))"
    "\<forall>k. k \<noteq> ''distance'' \<longrightarrow> py_getitem scooter k = py_getitem (vs ! i) k"
    by blast
  have rep: "report scooter (s\<lparr>attributes := [], state := PNone\<rparr>) =
       (Inr (), s\<lparr>attributes := [], state := PNone\<rparr>
                  \<lparr>state := PInt (round_half_even (qs ! i)), attributes := attrs\<rparr>)"
    by (rule report_ok [OF sc(2,3) attrs]) simp
  from i have "vs \<noteq> []" by auto
  then show ?thesis
    using sc(1) rep
    by (simp add: update_def get_vehicles_parsed [OF st] read_vehicles_data [OF data]
        request_of_def)
qed

lemma update_requests:
  "requests (snd (snd (update distance net (s, w)))) = requests w @ [request_of s]"
proof -
  obtain fetched w1 where g:
    "get_vehicles (api_key s) net (latitude s) (longitude s) (radius s) w = (fetched, w1)"
    by (cases "get_vehicles (api_key s) net (latitude s) (longitude s) (radius s) w")
  with get_vehicles_requests [of "api_key s" net "latitude s" "longitude s" "radius s" w]
  have w1: "requests w1 = requests w @ [request_of s]"
    by (simp add: request_of_def)
  show ?thesis
  proof (cases fetched)
    case (Inl ex)
    with g w1 show ?thesis by (simp add: update_def Let_def)
  next
    case (Inr result)
    obtain r2 w2 where rv: "read_vehicles result w1 = (r2, w2)"
      by (cases "read_vehicles result w1")
    with read_vehicles_requests [of result w1] w1
    have "requests w2 = requests w @ [request_of s]" by simp
    with g Inr rv show ?thesis
      by (simp add: update_def Let_def split: sum.splits prod.splits)
  qed
qed


lemma update_fetch_failure:
  assumes "fetch_failure net"
  shows "\<exists>m. update distance net (s, w) =
           (Inr (), s\<lparr>attributes := [], state := PNone\<rparr>,
            w\<lparr>requests := requests w @ [request_of s],
               error_log := error_log w @ [m, EmptyResult]\<rparr>)"
proof -
  from get_vehicles_failure [OF assms]
  obtain m where "get_vehicles (api_key s) net (latitude s) (longitude s) (radius s) w =
           (Inr PNone, w\<lparr>requests := requests w @ [request_of s],
                          error_log := error_log w @ [m]\<rparr>)"
    unfolding request_of_def by blast
  then have "update distance net (s, w) =
           (Inr (), s\<lparr>attributes := [], state := PNone\<rparr>,
            w\<lparr>requests := requests w @ [request_of s],
               error_log := error_log w @ [m, EmptyResult]\<rparr>)"
    by (simp add: update_def read_vehicles_falsy log_error_def)
  then show ?thesis ..
qed

lemma update_falsy_result:
  assumes st: "\<not> error_status st" and falsy: "\<not> truthy result"
  shows "update distance (Response st (Parsed result)) (s, w) =
           (Inr (), s\<lparr>attributes := [], state := PNone\<rparr>,
            w\<lparr>requests := requests w @ [request_of s],
               error_log := error_log w @ [EmptyResult]\<rparr>)"
  using falsy
  by (simp add: update_def get_vehicles_parsed [OF st] read_vehicles_falsy log_error_def
      request_of_def)

lemma update_missing_data:
  assumes st: "\<not> error_status st" and missing: "map_of d ''data'' = None"
  shows "update distance (Response st (Parsed (PDict d))) (s, w) =
           (Inr (), s\<lparr>attributes := [], state := PNone\<rparr>,
            w\<lparr>requests := requests w @ [request_of s],
               error_log := error_log w @
                 [if d = [] then EmptyResult else ErroneousResult (KeyError ''data'')]\<rparr>)"
  using missing
  by (simp add: update_def get_vehicles_parsed [OF st] read_vehicles_def log_error_def
      request_of_def)

lemma update_falsy_data:
  assumes st: "\<not> error_status st" and data: "map_of d ''data'' = Some vehicles"
    and falsy: "\<not> truthy vehicles"
  shows "update distance (Response st (Parsed (PDict d))) (s, w) =
           (Inr (), s\<lparr>attributes := [], state := PNone\<rparr>,
            w\<lparr>requests := requests w @ [request_of s]\<rparr>)"
  using falsy
  by (simp add: update_def get_vehicles_parsed [OF st] read_vehicles_data [OF data]
      request_of_def)

lemma update_vehicles_returns:
  assumes st: "\<not> error_status st" and data: "map_of d ''data'' = Some (PList vs)"
    and ok: "list_all (\<lambda>v. vehicle_distance distance (latitude s) (longitude s) v \<noteq> None \<and>
                          vehicle_attributes v \<noteq> None) vs"
  shows "fst (update distance (Response st (Parsed (PDict d))) (s, w)) = Inr ()"
proof (cases "vs = []")
  case True
  with update_falsy_data [OF st data, of distance s w] show ?thesis by simp
next
  case False
  define qs where "qs = map (\<lambda>v. the (vehicle_distance distance (latitude s) (longitude s) v)) vs"
  have ds: "map (vehicle_distance distance (latitude s) (longitude s)) vs = map Some qs"
    using ok by (auto simp add: qs_def list_all_iff)
  from False have "qs \<noteq> []" by (simp add: qs_def)
  from first_minimum_exists [OF this] obtain i where i:
    "i < length vs" "\<forall>j<length vs. qs ! i \<le> qs ! j" "\<forall>j<i. qs ! i < qs ! j"
    by (auto simp add: qs_def)
  from ok i(1) obtain a where "vehicle_attributes (vs ! i) = Some a"
    by (auto simp add: list_all_length)
  from update_nearest [OF st data ds i this, of w] show ?thesis by simp
qed

lemma py_round_ndigits_numeric:
  assumes "numeric a \<noteq> None"
  shows "\<exists>r. py_round_ndigits a k = Inr r"
  using assms by (cases a) simp_all

lemma vehicle_ok_distance_attributes:
  assumes "vehicle_ok distance la lo v"
  shows "vehicle_distance distance la lo v \<noteq> None \<and> vehicle_attributes v \<noteq> None"
proof -
  from assms obtain d a b c q where v: "v = PDict d"
    and items: "map_of d ''lat'' = Some a" "map_of d ''lng'' = Some b"
      "map_of d ''batteryLevel'' = Some c"
    and numbers: "numeric a \<noteq> None" "numeric b \<noteq> None" "numeric c \<noteq> None"
    and q: "distance a b la lo = Inr (Some q)"
    by (auto simp add: vehicle_ok_def split: pyval.splits option.splits sum.splits)
  from numbers obtain ra rb z where
    "py_round_ndigits a 5 = Inr ra" "py_round_ndigits b 5 = Inr rb" "numeric c = Some z"
    using py_round_ndigits_numeric [of a 5] py_round_ndigits_numeric [of b 5] by auto
  with v items q py_round_numeric [of c z] show ?thesis
    by (simp add: vehicle_distance_def vehicle_attributes_def)
qed

section \<open>The claims\<close>

subsection \<open>C1: the reading is the distance to the nearest vehicle\<close>

text \<open>
  C1. In a cycle in which the fetch yields an object whose \<^verbatim>\<open>data\<close> item is a non-empty
  list of vehicles, the distance from the sensor's own location is computed for every
  vehicle (the list \<open>qs\<close>). The state becomes an integer nearest to the least of these
  distances, and the attributes become those of a vehicle \<open>i\<close> at that least distance:
  its latitude \<open>xs ! i\<close> and longitude \<open>ys ! i\<close> as decimals with five places nearest to
  them, and its battery level \<open>zs ! i\<close> as an integer nearest to it. The evaluation below
  has the example of the specification (for distances 120.4, 80.1 and 300.0 the state is
  80 and the attributes are those of the second vehicle) and a list in which the state,
  the latitude and the battery level are rounded upwards (80.6 gives 81).
\<close>

theorem update_reports_nearest:
  assumes st: "\<not> error_status st"
    and data: "map_of d ''data'' = Some (PList vs)"
    and nonempty: "vs \<noteq> []"
    and ds: "map (vehicle_distance distance (latitude s) (longitude s)) vs = map Some qs"
    and lats: "map (\<lambda>v. py_getitem v ''lat'') vs = map (\<lambda>x. Inr (PFloat x)) xs"
    and lngs: "map (\<lambda>v. py_getitem v ''lng'') vs = map (\<lambda>y. Inr (PFloat y)) ys"
    and levels: "map (\<lambda>v. py_getitem v ''batteryLevel'') vs = map Inr bs"
    and numbers: "map numeric bs = map Some zs"
  shows "\<exists>i n m1 m2 k. i < length vs \<and> qs ! i = Min (set qs) \<and>
           update distance (Response st (Parsed (PDict d))) (s, w) =
             (Inr (),
              s\<lparr>state := PInt n,
                attributes :=
                  [(ATTR_LATITUDE, PFloat (of_int m1 / 10 ^ 5)),
                   (ATTR_LONGITUDE, PFloat (of_int m2 / 10 ^ 5)),
                   (ATTR_BATTERY_LEVEL, PInt k),
                   (ATTR_ATTRIBUTION, PStr ATTRIBUTION)]\<rparr>,
              w\<lparr>requests := requests w @ [request_of s]\<rparr>) \<and>
           \<bar>of_int n - Min (set qs)\<bar> \<le> 1 / 2 \<and>
           \<bar>of_int m1 / 10 ^ 5 - xs ! i\<bar> \<le> 1 / 200000 \<and>
           \<bar>of_int m2 / 10 ^ 5 - ys ! i\<bar> \<le> 1 / 200000 \<and>
           \<bar>of_int k - zs ! i\<bar> \<le> 1 / 2"
proof -
  from ds have len: "length qs = length vs"
    by (auto dest: map_eq_imp_length_eq)
  with nonempty have "qs \<noteq> []" by auto
  from first_minimum_exists [OF this] len obtain i where i:
    "i < length vs" "qs ! i = Min (set qs)" "\<forall>j<length vs. qs ! i \<le> qs ! j"
    "\<forall>j<i. qs ! i < qs ! j"
    by auto
  let ?n = "round_half_even (qs ! i)"
  let ?m1 = "round_half_even (xs ! i * 10 ^ 5)" and ?m2 = "round_half_even (ys ! i * 10 ^ 5)"
  let ?k = "round_half_even (zs ! i)"
  have nth: "f (vs ! i) = g (us ! i)" if "map f vs = map g us"
    for f :: "pyval \<Rightarrow> exn + pyval" and g :: "'u \<Rightarrow> exn + pyval" and us :: "'u list"
  proof -
    from that have "length vs = length us"
      by (rule map_eq_imp_length_eq)
    moreover from that have "map f vs ! i = map g us ! i"
      by simp
    ultimately show ?thesis
      using i(1) by simp
  qed
  have x: "py_getitem (vs ! i) ''lat'' = Inr (PFloat (xs ! i))"
    using nth [OF lats] .
  have y: "py_getitem (vs ! i) ''lng'' = Inr (PFloat (ys ! i))"
    using nth [OF lngs] .
  have b: "py_getitem (vs ! i) ''batteryLevel'' = Inr (bs ! i)"
    using nth [OF levels] .
  have z: "numeric (bs ! i) = Some (zs ! i)"
  proof -
    from levels have "length vs = length bs"
      by (rule map_eq_imp_length_eq)
    moreover from numbers have "length bs = length zs"
      by (rule map_eq_imp_length_eq)
    moreover from numbers have "map numeric bs ! i = map Some zs ! i"
      by simp
    ultimately show ?thesis
      using i(1) by simp
  qed
  have "vehicle_attributes (vs ! i) =
          Some [(ATTR_LATITUDE, PFloat (of_int ?m1 / 10 ^ 5)),
                (ATTR_LONGITUDE, PFloat (of_int ?m2 / 10 ^ 5)),
                (ATTR_BATTERY_LEVEL, PInt ?k),
                (ATTR_ATTRIBUTION, PStr ATTRIBUTION)]"
    using x y b py_round_numeric [OF z] by (simp add: vehicle_attributes_def)
  from update_nearest [OF st data ds i(1,3,4) this, of w]
  have "update distance (Response st (Parsed (PDict d))) (s, w) =
             (Inr (),
              s\<lparr>state := PInt ?n,
                attributes :=
                  [(ATTR_LATITUDE, PFloat (of_int ?m1 / 10 ^ 5)),
                   (ATTR_LONGITUDE, PFloat (of_int ?m2 / 10 ^ 5)),
                   (ATTR_BATTERY_LEVEL, PInt ?k),
                   (ATTR_ATTRIBUTION, PStr ATTRIBUTION)]\<rparr>,
              w\<lparr>requests := requests w @ [request_of s]\<rparr>)" .
  moreover have "\<bar>of_int ?n - Min (set qs)\<bar> \<le> 1 / 2"
    using round_half_even_near [of "qs ! i"] i(2) by simp
  moreover have "\<bar>of_int ?m1 / 10 ^ 5 - xs ! i\<bar> \<le> 1 / 200000"
    by (rule round_places_near)
  moreover have "\<bar>of_int ?m2 / 10 ^ 5 - ys ! i\<bar> \<le> 1 / 200000"
    by (rule round_places_near)
  moreover have "\<bar>of_int ?k - zs ! i\<bar> \<le> 1 / 2"
    by (rule round_half_even_near)
  ultimately show ?thesis
    using i(1,2)
    by (intro exI [of _ i] exI [of _ ?n] exI [of _ ?m1] exI [of _ ?m2] exI [of _ ?k]) simp
qed


theorem update_reports_nearest_witness:
  "update grid_distance
     (Response 200 (Parsed (vehicles_json
        [vehicle_json (1204 / 10) 0 50, vehicle_json 0 (801 / 10) 60, vehicle_json 300 0 70])))
     (origin_sensor, fresh_world) =
   (Inr (),
    origin_sensor\<lparr>state := PInt 80,
      attributes := [(ATTR_LATITUDE, PFloat 0), (ATTR_LONGITUDE, PFloat (801 / 10)),
                     (ATTR_BATTERY_LEVEL, PInt 60), (ATTR_ATTRIBUTION, PStr ATTRIBUTION)]\<rparr>,
    fresh_world\<lparr>requests := [request_of origin_sensor]\<rparr>) \<and>
   update grid_distance
     (Response 200 (Parsed (vehicles_json
        [vehicle_json (1204 / 10) 0 50,
         PDict [(''lat'', PFloat (52123456 / 1000000)), (''lng'', PFloat (28476544 / 1000000)),
                (''batteryLevel'', PFloat (597 / 10))],
         vehicle_json 300 0 70])))
     (origin_sensor, fresh_world) =
   (Inr (),
    origin_sensor\<lparr>state := PInt 81,
      attributes := [(ATTR_LATITUDE, PFloat (5212346 / 100000)),
                     (ATTR_LONGITUDE, PFloat (2847654 / 100000)),
                     (ATTR_BATTERY_LEVEL, PInt 60), (ATTR_ATTRIBUTION, PStr ATTRIBUTION)]\<rparr>,
    fresh_world\<lparr>requests := [request_of origin_sensor]\<rparr>)"
proof -
  let ?v = "PDict [(''lat'', PFloat (52123456 / 1000000)), (''lng'', PFloat (28476544 / 1000000)),
                (''batteryLevel'', PFloat (597 / 10))]"
  let ?vs1 = "[vehicle_json (1204 / 10) 0 50, vehicle_json 0 (801 / 10) 60, vehicle_json 300 0 70]"
  let ?vs2 = "[vehicle_json (1204 / 10) 0 50, ?v, vehicle_json 300 0 70]"
  let ?qs1 = "[1204 / 10, 801 / 10, 300 :: rat]"
  let ?qs2 = "[1204 / 10, 806 / 10, 300 :: rat]"
  have st: "\<not> error_status 200"
    by (simp add: error_status_def)
  have data1: "map_of [(''data'', PList ?vs1)] ''data'' = Some (PList ?vs1)"
    and data2: "map_of [(''data'', PList ?vs2)] ''data'' = Some (PList ?vs2)"
    by simp_all
  have ne1: "?vs1 \<noteq> []" and ne2: "?vs2 \<noteq> []"
    by simp_all
  have ds1: "map (vehicle_distance grid_distance (latitude origin_sensor) (longitude origin_sensor)) ?vs1
              = map Some ?qs1"
    and ds2: "map (vehicle_distance grid_distance (latitude origin_sensor) (longitude origin_sensor)) ?vs2
              = map Some ?qs2"
    by (simp_all add: vehicle_distance_def grid_distance_def vehicle_json_def origin_sensor_def
        TierNearestScooterSensor_def)
  have lats1: "map (\<lambda>v. py_getitem v ''lat'') ?vs1 = map (\<lambda>x. Inr (PFloat x)) [1204 / 10, 0, 300]"
    and lngs1: "map (\<lambda>v. py_getitem v ''lng'') ?vs1 = map (\<lambda>y. Inr (PFloat y)) [0, 801 / 10, 0]"
    and levels1: "map (\<lambda>v. py_getitem v ''batteryLevel'') ?vs1 = map Inr [PInt 50, PInt 60, PInt 70]"
    and numbers1: "map numeric [PInt 50, PInt 60, PInt 70] = map Some [50, 60, 70]"
    by (simp_all add: vehicle_json_def)
  have lats2: "map (\<lambda>v. py_getitem v ''lat'') ?vs2 =
                 map (\<lambda>x. Inr (PFloat x)) [1204 / 10, 52123456 / 1000000, 300]"
    and lngs2: "map (\<lambda>v. py_getitem v ''lng'') ?vs2 =
                 map (\<lambda>y. Inr (PFloat y)) [0, 28476544 / 1000000, 0]"
    and levels2: "map (\<lambda>v. py_getitem v ''batteryLevel'') ?vs2 =
                 map Inr [PInt 50, PFloat (597 / 10), PInt 70]"
    and numbers2: "map numeric [PInt 50, PFloat (597 / 10), PInt 70] = map Some [50, 597 / 10, 70]"
    by (simp_all add: vehicle_json_def)
  have ev1: "update grid_distance (Response 200 (Parsed (PDict [(''data'', PList ?vs1)])))
      (origin_sensor, fresh_world) =
   (Inr (),
    origin_sensor\<lparr>state := PInt 80,
      attributes := [(ATTR_LATITUDE, PFloat 0), (ATTR_LONGITUDE, PFloat (801 / 10)),
                     (ATTR_BATTERY_LEVEL, PInt 60), (ATTR_ATTRIBUTION, PStr ATTRIBUTION)]\<rparr>,
    fresh_world\<lparr>requests := [request_of origin_sensor]\<rparr>)"
    by code_simp
  have ev2: "update grid_distance (Response 200 (Parsed (PDict [(''data'', PList ?vs2)])))
      (origin_sensor, fresh_world) =
   (Inr (),
    origin_sensor\<lparr>state := PInt 81,
      attributes := [(ATTR_LATITUDE, PFloat (5212346 / 100000)),
                     (ATTR_LONGITUDE, PFloat (2847654 / 100000)),
                     (ATTR_BATTERY_LEVEL, PInt 60), (ATTR_ATTRIBUTION, PStr ATTRIBUTION)]\<rparr>,
    fresh_world\<lparr>requests := [request_of origin_sensor]\<rparr>)"
    by code_simp
  from update_reports_nearest [OF st data1 ne1 ds1 lats1 lngs1 levels1 numbers1, of fresh_world]
  obtain n1 :: int where "update grid_distance (Response 200 (Parsed (PDict [(''data'', PList ?vs1)])))
      (origin_sensor, fresh_world) =
      (Inr (), origin_sensor\<lparr>state := PInt 80,
      attributes := [(ATTR_LATITUDE, PFloat 0), (ATTR_LONGITUDE, PFloat (801 / 10)),
                     (ATTR_BATTERY_LEVEL, PInt 60), (ATTR_ATTRIBUTION, PStr ATTRIBUTION)]\<rparr>,
    fresh_world\<lparr>requests := [request_of origin_sensor]\<rparr>)"
    "\<bar>of_int n1 - Min (set ?qs1)\<bar> \<le> 1 / 2"
    unfolding ev1 by blast
  moreover
  from update_reports_nearest [OF st data2 ne2 ds2 lats2 lngs2 levels2 numbers2, of fresh_world]
  obtain n2 :: int where "update grid_distance (Response 200 (Parsed (PDict [(''data'', PList ?vs2)])))
      (origin_sensor, fresh_world) =
      (Inr (), origin_sensor\<lparr>state := PInt 81,
      attributes := [(ATTR_LATITUDE, PFloat (5212346 / 100000)),
                     (ATTR_LONGITUDE, PFloat (2847654 / 100000)),
                     (ATTR_BATTERY_LEVEL, PInt 60), (ATTR_ATTRIBUTION, PStr ATTRIBUTION)]\<rparr>,
    fresh_world\<lparr>requests := [request_of origin_sensor]\<rparr>)"
    "\<bar>of_int n2 - Min (set ?qs2)\<bar> \<le> 1 / 2"
    unfolding ev2 by blast
  ultimately show ?thesis
    by (simp add: vehicles_json_def)
qed

subsection \<open>C2: no stale reading\<close>

text \<open>
  C2. In a cycle in which the fetch returns \<^verbatim>\<open>None\<close>, or an object whose \<^verbatim>\<open>data\<close> item
  is the empty list, \<open>update\<close> returns with the state \<^verbatim>\<open>None\<close> and no attributes,
  whatever the sensor held before.
\<close>

theorem update_resets_reading:
  assumes fetched: "fst (get_vehicles (api_key s) net (latitude s) (longitude s) (radius s) w) = Inr result"
    and empty: "result = PNone \<or> py_getitem result ''data'' = Inr (PList [])"
  shows "fst (update distance net (s, w)) = Inr () \<and>
         state (fst (snd (update distance net (s, w)))) = PNone \<and>
         attributes (fst (snd (update distance net (s, w)))) = []"
proof -
  obtain w1 where g:
    "get_vehicles (api_key s) net (latitude s) (longitude s) (radius s) w = (Inr result, w1)"
    using fetched by (cases "get_vehicles (api_key s) net (latitude s) (longitude s) (radius s) w") simp
  have "\<exists>vehicles w2. read_vehicles result w1 = (Inr vehicles, w2) \<and> \<not> truthy vehicles"
  proof (cases "result = PNone")
    case True
    then show ?thesis by (simp add: read_vehicles_def)
  next
    case False
    with empty have data: "py_getitem result ''data'' = Inr (PList [])" by simp
    then obtain d where "result = PDict d" "map_of d ''data'' = Some (PList [])"
      by (cases result) (auto split: option.splits)
    then show ?thesis by (simp add: read_vehicles_data)
  qed
  then obtain vehicles w2 where "read_vehicles result w1 = (Inr vehicles, w2)" "\<not> truthy vehicles"
    by blast
  from update_after_fetch [OF g this] show ?thesis by simp
qed

theorem update_resets_reading_witness:
  "state (fst (snd (update grid_distance TimedOut
      (origin_sensor\<lparr>state := PInt 80, attributes := [(ATTR_BATTERY_LEVEL, PInt 60)]\<rparr>, fresh_world)))) = PNone \<and>
   attributes (fst (snd (update grid_distance TimedOut
      (origin_sensor\<lparr>state := PInt 80, attributes := [(ATTR_BATTERY_LEVEL, PInt 60)]\<rparr>, fresh_world)))) = [] \<and>
   state (fst (snd (update grid_distance (Response 200 (Parsed (vehicles_json [])))
      (origin_sensor\<lparr>state := PInt 80, attributes := [(ATTR_BATTERY_LEVEL, PInt 60)]\<rparr>, fresh_world)))) = PNone \<and>
   attributes (fst (snd (update grid_distance (Response 200 (Parsed (vehicles_json [])))
      (origin_sensor\<lparr>state := PInt 80, attributes := [(ATTR_BATTERY_LEVEL, PInt 60)]\<rparr>, fresh_world)))) = []"
proof -
  let ?s = "origin_sensor\<lparr>state := PInt 80, attributes := [(ATTR_BATTERY_LEVEL, PInt 60)]\<rparr>"
  have f1: "fst (get_vehicles (api_key ?s) TimedOut (latitude ?s) (longitude ?s) (radius ?s) fresh_world)
              = Inr PNone"
    by (simp add: get_vehicles_def requests_get_def Let_def)
  have e1: "PNone = PNone \<or> py_getitem PNone ''data'' = Inr (PList [])"
    by simp
  have f2: "fst (get_vehicles (api_key ?s) (Response 200 (Parsed (vehicles_json [])))
              (latitude ?s) (longitude ?s) (radius ?s) fresh_world) = Inr (vehicles_json [])"
    by (simp add: get_vehicles_def requests_get_def raise_for_status_def response_json_def Let_def)
  have e2: "vehicles_json [] = PNone \<or> py_getitem (vehicles_json []) ''data'' = Inr (PList [])"
    by (simp add: vehicles_json_def)
  from update_resets_reading [OF f1 e1, of grid_distance]
    update_resets_reading [OF f2 e2, of grid_distance]
  show ?thesis by simp
qed

subsection \<open>C3: ties\<close>

text \<open>
  C3. When several vehicles are at the least distance, the first of them in the order of
  the fetched list is selected: if vehicle \<open>i\<close> is at the least distance and no vehicle
  before it is at the same distance, the reading is that of vehicle \<open>i\<close>.
\<close>

theorem update_tie_break_first:
  assumes st: "\<not> error_status st"
    and data: "map_of d ''data'' = Some (PList vs)"
    and ds: "map (vehicle_distance distance (latitude s) (longitude s)) vs = map Some qs"
    and i: "i < length vs"
    and least: "\<forall>j<length vs. qs ! i \<le> qs ! j"
    and first: "\<forall>j<i. qs ! j \<noteq> qs ! i"
    and attrs: "vehicle_attributes (vs ! i) = Some attrs"
  shows "update distance (Response st (Parsed (PDict d))) (s, w) =
           (Inr (), s\<lparr>state := PInt (round_half_even (qs ! i)), attributes := attrs\<rparr>,
            w\<lparr>requests := requests w @ [request_of s]\<rparr>)"
proof -
  have "\<forall>j<i. qs ! i < qs ! j"
  proof (intro allI impI)
    fix j assume "j < i"
    with i least first show "qs ! i < qs ! j"
      by (metis less_trans order_less_le)
  qed
  then show ?thesis
    by (rule update_nearest [OF st data ds i least _ attrs])
qed

theorem update_tie_break_first_witness:
  "update grid_distance
     (Response 200 (Parsed (vehicles_json
        [vehicle_json 20 0 30, vehicle_json 10 0 60, vehicle_json 0 10 70])))
     (origin_sensor, fresh_world) =
   (Inr (),
    origin_sensor\<lparr>state := PInt 10,
      attributes := [(ATTR_LATITUDE, PFloat 10), (ATTR_LONGITUDE, PFloat 0),
                     (ATTR_BATTERY_LEVEL, PInt 60), (ATTR_ATTRIBUTION, PStr ATTRIBUTION)]\<rparr>,
    fresh_world\<lparr>requests := [request_of origin_sensor]\<rparr>)"
proof -
  let ?vs = "[vehicle_json 20 0 30, vehicle_json 10 0 60, vehicle_json 0 10 70]"
  let ?qs = "[20, 10, 10 :: rat]"
  let ?attrs = "[(ATTR_LATITUDE, PFloat 10), (ATTR_LONGITUDE, PFloat 0),
                 (ATTR_BATTERY_LEVEL, PInt 60), (ATTR_ATTRIBUTION, PStr ATTRIBUTION)]"
  have st: "\<not> error_status 200"
    by (simp add: error_status_def)
  have data: "map_of [(''data'', PList ?vs)] ''data'' = Some (PList ?vs)"
    by simp
  have ds: "map (vehicle_distance grid_distance (latitude origin_sensor) (longitude origin_sensor)) ?vs
              = map Some ?qs"
    by (simp add: vehicle_distance_def grid_distance_def vehicle_json_def origin_sensor_def
        TierNearestScooterSensor_def)
  have i: "1 < length ?vs"
    by simp
  have least: "\<forall>j<length ?vs. ?qs ! 1 \<le> ?qs ! j"
    by (simp add: less_Suc_eq)
  have first: "\<forall>j<1. ?qs ! j \<noteq> ?qs ! 1"
    by simp
  have attrs: "vehicle_attributes (?vs ! 1) = Some ?attrs"
    by (simp add: vehicle_attributes_def vehicle_json_def)
  from update_tie_break_first [OF st data ds i least first attrs, of fresh_world]
  show ?thesis
    by (simp add: vehicles_json_def fresh_world_def)
qed

subsection \<open>C4: the throttle\<close>

text \<open>
  C4. Of two calls within the throttle interval of ten minutes, the first of which is let
  through and returns, only the first sends a request: the second is suppressed and
  leaves the time stamp, the sensor (state and attributes) and the world as the first
  call left them.
\<close>

theorem throttle_suppresses_second_call:
  assumes permitted: "\<not> suppressed stamp t1"
    and first: "throttled_update distance net1 t1 (stamp, s, w) = (Inr (), stamp1, s1, w1)"
    and within: "t2 - t1 < MIN_TIME_BETWEEN_UPDATES"
  shows "throttled_update distance net2 t2 (stamp1, s1, w1) = (Inr (), stamp1, s1, w1) \<and>
         requests w1 = requests w @ [request_of s]"
proof -
  obtain r s' w' where u: "update distance net1 (s, w) = (r, s', w')"
    by (cases "update distance net1 (s, w)")
  with permitted first have "r = Inr ()" "stamp1 = Some t1" "s1 = s'" "w1 = w'"
    by (auto simp add: throttled_update_def split: sum.splits)
  moreover from update_requests [of distance net1 s w] u
  have "requests w' = requests w @ [request_of s]" by simp
  ultimately show ?thesis
    using within by (simp add: throttled_update_def suppressed_def)
qed

theorem throttle_suppresses_second_call_witness:
  "throttled_update grid_distance (Response 200 (Parsed (vehicles_json [vehicle_json 20 0 30])))
     0 (None, origin_sensor, fresh_world) =
     (Inr (), Some 0,
      origin_sensor\<lparr>state := PInt 20,
        attributes := [(ATTR_LATITUDE, PFloat 20), (ATTR_LONGITUDE, PFloat 0),
                       (ATTR_BATTERY_LEVEL, PInt 30), (ATTR_ATTRIBUTION, PStr ATTRIBUTION)]\<rparr>,
      \<lparr>requests = [request_of origin_sensor], error_log = []\<rparr>) \<and>
   throttled_update grid_distance (Response 200 (Parsed (vehicles_json [vehicle_json 5 0 90])))
     599999999
     (Some 0,
      origin_sensor\<lparr>state := PInt 20,
        attributes := [(ATTR_LATITUDE, PFloat 20), (ATTR_LONGITUDE, PFloat 0),
                       (ATTR_BATTERY_LEVEL, PInt 30), (ATTR_ATTRIBUTION, PStr ATTRIBUTION)]\<rparr>,
      \<lparr>requests = [request_of origin_sensor], error_log = []\<rparr>) =
     (Inr (), Some 0,
      origin_sensor\<lparr>state := PInt 20,
        attributes := [(ATTR_LATITUDE, PFloat 20), (ATTR_LONGITUDE, PFloat 0),
                       (ATTR_BATTERY_LEVEL, PInt 30), (ATTR_ATTRIBUTION, PStr ATTRIBUTION)]\<rparr>,
      \<lparr>requests = [request_of origin_sensor], error_log = []\<rparr>)"
proof -
  let ?s1 = "origin_sensor\<lparr>state := PInt 20,
        attributes := [(ATTR_LATITUDE, PFloat 20), (ATTR_LONGITUDE, PFloat 0),
                       (ATTR_BATTERY_LEVEL, PInt 30), (ATTR_ATTRIBUTION, PStr ATTRIBUTION)]\<rparr>"
  let ?w1 = "\<lparr>requests = [request_of origin_sensor], error_log = []\<rparr>"
  have permitted: "\<not> suppressed None 0"
    by (simp add: suppressed_def)
  have first: "throttled_update grid_distance
      (Response 200 (Parsed (vehicles_json [vehicle_json 20 0 30]))) 0
      (None, origin_sensor, fresh_world) = (Inr (), Some 0, ?s1, ?w1)"
    by code_simp
  have within: "599999999 - 0 < MIN_TIME_BETWEEN_UPDATES"
    by (simp add: MIN_TIME_BETWEEN_UPDATES_def)
  from throttle_suppresses_second_call [OF permitted first within] first
  show ?thesis by simp
qed

subsection \<open>C5: the fetch returns the parsed body or nothing\<close>

text \<open>
  C5, as the code has it. \<open>get_vehicles\<close> never raises and sends one request. When the
  fetch fails (no connection, no answer in time, an error status from 400 to 599, or a
  body that does not parse) it logs one error and returns \<^verbatim>\<open>None\<close>. Otherwise it returns
  the parsed body as it is, which for a well-formed answer is the object that holds the
  vehicle list under \<^verbatim>\<open>data\<close>, and logs nothing.
\<close>

theorem get_vehicles_never_raises:
  "(\<exists>v w'. get_vehicles key net la lo r w = (Inr v, w')) \<and>
   (fetch_failure net \<longrightarrow>
      (\<exists>m. get_vehicles key net la lo r w =
         (Inr PNone,
          w\<lparr>requests := requests w @ [\<lparr>lat = la, lng = lo, rad = r, x_api_key = key\<rparr>],
             error_log := error_log w @ [m]\<rparr>))) \<and>
   (\<not> fetch_failure net \<longrightarrow>
      (\<exists>st v. net = Response st (Parsed v) \<and>
         get_vehicles key net la lo r w =
           (Inr v, w\<lparr>requests := requests w @ [\<lparr>lat = la, lng = lo, rad = r, x_api_key = key\<rparr>]\<rparr>)))"
proof (cases "fetch_failure net")
  case True
  with get_vehicles_failure [OF True, of key la lo r w] show ?thesis
    by auto
next
  case False
  then obtain st v where "net = Response st (Parsed v)" "\<not> error_status st"
    by (rule not_fetch_failure)
  with False get_vehicles_parsed [of st key v la lo r w] show ?thesis
    by auto
qed

theorem get_vehicles_never_raises_witness:
  "get_vehicles ''key'' TimedOut 0 0 500 fresh_world =
     (Inr PNone,
      \<lparr>requests = [\<lparr>lat = 0, lng = 0, rad = 500, x_api_key = ''key''\<rparr>],
       error_log = [ErrorFetching \<lparr>lat = 0, lng = 0, rad = 500, x_api_key = ''key''\<rparr> Timeout]\<rparr>) \<and>
   get_vehicles ''key'' (Response 200 (Parsed (vehicles_json [vehicle_json 20 0 30]))) 0 0 500 fresh_world =
     (Inr (vehicles_json [vehicle_json 20 0 30]),
      \<lparr>requests = [\<lparr>lat = 0, lng = 0, rad = 500, x_api_key = ''key''\<rparr>], error_log = []\<rparr>)"
proof -
  have "\<exists>v w'. get_vehicles ''key'' TimedOut 0 0 500 fresh_world = (Inr v, w')"
    using get_vehicles_never_raises [of "''key''" TimedOut 0 0 500 fresh_world] by blast
  moreover have "\<exists>v w'. get_vehicles ''key''
      (Response 200 (Parsed (vehicles_json [vehicle_json 20 0 30]))) 0 0 500 fresh_world = (Inr v, w')"
    using get_vehicles_never_raises
      [of "''key''" "Response 200 (Parsed (vehicles_json [vehicle_json 20 0 30]))" 0 0 500 fresh_world]
    by blast
  ultimately show ?thesis
    by (simp add: get_vehicles_def requests_get_def raise_for_status_def response_json_def
        log_error_def fresh_world_def Let_def)
qed

text \<open>
  C5 as stated fails: for a well-formed answer the result is the whole object, neither a
  list nor \<^verbatim>\<open>None\<close>; and a status outside 200 to 299 that is not an error status (here
  300) with a body that parses is returned like a success, with nothing logged.
\<close>

theorem get_vehicles_result_counterexample:
  "get_vehicles ''key'' (Response 200 (Parsed (PDict [(''data'', PList [])]))) 0 0 500
      \<lparr>requests = [], error_log = []\<rparr> =
     (Inr (PDict [(''data'', PList [])]),
      \<lparr>requests = [\<lparr>lat = 0, lng = 0, rad = 500, x_api_key = ''key''\<rparr>], error_log = []\<rparr>) \<and>
   get_vehicles ''key'' (Response 300 (Parsed (PDict [(''data'', PList [])]))) 0 0 500
      \<lparr>requests = [], error_log = []\<rparr> =
     (Inr (PDict [(''data'', PList [])]),
      \<lparr>requests = [\<lparr>lat = 0, lng = 0, rad = 500, x_api_key = ''key''\<rparr>], error_log = []\<rparr>)"
  by (simp add: get_vehicles_def requests_get_def raise_for_status_def response_json_def Let_def)

subsection \<open>C6: the error conditions\<close>

text \<open>
  C6, as the code has it. A failed fetch (no connection or no answer in time, an error
  status from 400 to 599, a body that does not parse) logs two errors, that of the fetch
  and that of the empty result; an object without \<^verbatim>\<open>data\<close> logs one error. An empty
  vehicle list logs nothing. In each of the five cases \<open>update\<close> returns with an unknown
  reading after exactly one request.
\<close>

theorem update_handles_error_conditions:
  "(fetch_failure net \<longrightarrow>
      (\<exists>m. update distance net (s, w) =
         (Inr (), s\<lparr>attributes := [], state := PNone\<rparr>,
          w\<lparr>requests := requests w @ [request_of s],
             error_log := error_log w @ [m, EmptyResult]\<rparr>))) \<and>
   (\<not> error_status st \<and> map_of d ''data'' = None \<longrightarrow>
      (\<exists>m. update distance (Response st (Parsed (PDict d))) (s, w) =
         (Inr (), s\<lparr>attributes := [], state := PNone\<rparr>,
          w\<lparr>requests := requests w @ [request_of s],
             error_log := error_log w @ [m]\<rparr>))) \<and>
   (\<not> error_status st \<and> map_of d ''data'' = Some (PList []) \<longrightarrow>
      update distance (Response st (Parsed (PDict d))) (s, w) =
        (Inr (), s\<lparr>attributes := [], state := PNone\<rparr>,
         w\<lparr>requests := requests w @ [request_of s]\<rparr>))"
proof (intro conjI impI)
  assume "fetch_failure net"
  then show "\<exists>m. update distance net (s, w) =
         (Inr (), s\<lparr>attributes := [], state := PNone\<rparr>,
          w\<lparr>requests := requests w @ [request_of s],
             error_log := error_log w @ [m, EmptyResult]\<rparr>)"
    by (rule update_fetch_failure)
next
  assume "\<not> error_status st \<and> map_of d ''data'' = None"
  then have "update distance (Response st (Parsed (PDict d))) (s, w) =
           (Inr (), s\<lparr>attributes := [], state := PNone\<rparr>,
            w\<lparr>requests := requests w @ [request_of s],
               error_log := error_log w @
                 [if d = [] then EmptyResult else ErroneousResult (KeyError ''data'')]\<rparr>)"
    by (simp add: update_missing_data)
  then show "\<exists>m. update distance (Response st (Parsed (PDict d))) (s, w) =
         (Inr (), s\<lparr>attributes := [], state := PNone\<rparr>,
          w\<lparr>requests := requests w @ [request_of s],
             error_log := error_log w @ [m]\<rparr>)" ..
next
  assume "\<not> error_status st \<and> map_of d ''data'' = Some (PList [])"
  then show "update distance (Response st (Parsed (PDict d))) (s, w) =
        (Inr (), s\<lparr>attributes := [], state := PNone\<rparr>,
         w\<lparr>requests := requests w @ [request_of s]\<rparr>)"
    by (simp add: update_falsy_data)
qed

theorem update_handles_error_conditions_witness:
  "update grid_distance (Response 503 Malformed) (origin_sensor, fresh_world) =
     (Inr (), origin_sensor,
      \<lparr>requests = [request_of origin_sensor],
       error_log = [ErrorFetching (request_of origin_sensor) (HTTPError 503), EmptyResult]\<rparr>) \<and>
   update grid_distance (Response 200 (Parsed (PDict [(''message'', PStr ''no'')])))
       (origin_sensor, fresh_world) =
     (Inr (), origin_sensor,
      \<lparr>requests = [request_of origin_sensor],
       error_log = [ErroneousResult (KeyError ''data'')]\<rparr>) \<and>
   update grid_distance (Response 200 (Parsed (PDict [(''data'', PList [])])))
       (origin_sensor, fresh_world) =
     (Inr (), origin_sensor, \<lparr>requests = [request_of origin_sensor], error_log = []\<rparr>)"
proof -
  note t = update_handles_error_conditions
    [of "Response 503 Malformed" grid_distance origin_sensor fresh_world 200]
  have reset: "origin_sensor\<lparr>attributes := [], state := PNone\<rparr> = origin_sensor"
    by (simp add: origin_sensor_def TierNearestScooterSensor_def)
  have st: "\<not> error_status 200"
    by (simp add: error_status_def)
  have "fetch_failure (Response 503 Malformed)"
    by simp
  with t obtain m where m: "update grid_distance (Response 503 Malformed) (origin_sensor, fresh_world) =
         (Inr (), origin_sensor\<lparr>attributes := [], state := PNone\<rparr>,
          fresh_world\<lparr>requests := requests fresh_world @ [request_of origin_sensor],
             error_log := error_log fresh_world @ [m, EmptyResult]\<rparr>)"
    by blast
  have "error_log (snd (snd (update grid_distance (Response 503 Malformed) (origin_sensor, fresh_world))))
          = [ErrorFetching (request_of origin_sensor) (HTTPError 503), EmptyResult]"
    by code_simp
  with m have "m = ErrorFetching (request_of origin_sensor) (HTTPError 503)"
    by (simp add: fresh_world_def)
  with m have a: "update grid_distance (Response 503 Malformed) (origin_sensor, fresh_world) =
     (Inr (), origin_sensor,
      \<lparr>requests = [request_of origin_sensor],
       error_log = [ErrorFetching (request_of origin_sensor) (HTTPError 503), EmptyResult]\<rparr>)"
    by (simp add: reset fresh_world_def)
  have "map_of [(''message'', PStr ''no'')] ''data'' = None"
    by simp
  with st t [of "[(''message'', PStr ''no'')]"]
  obtain m' where m': "update grid_distance (Response 200 (Parsed (PDict [(''message'', PStr ''no'')])))
         (origin_sensor, fresh_world) =
         (Inr (), origin_sensor\<lparr>attributes := [], state := PNone\<rparr>,
          fresh_world\<lparr>requests := requests fresh_world @ [request_of origin_sensor],
             error_log := error_log fresh_world @ [m']\<rparr>)"
    by blast
  have "error_log (snd (snd (update grid_distance
          (Response 200 (Parsed (PDict [(''message'', PStr ''no'')]))) (origin_sensor, fresh_world))))
          = [ErroneousResult (KeyError ''data'')]"
    by code_simp
  with m' have "m' = ErroneousResult (KeyError ''data'')"
    by (simp add: fresh_world_def)
  with m' have b: "update grid_distance (Response 200 (Parsed (PDict [(''message'', PStr ''no'')])))
       (origin_sensor, fresh_world) =
     (Inr (), origin_sensor,
      \<lparr>requests = [request_of origin_sensor],
       error_log = [ErroneousResult (KeyError ''data'')]\<rparr>)"
    by (simp add: reset fresh_world_def)
  have "map_of [(''data'', PList [])] ''data'' = Some (PList [])"
    by simp
  with st t [of "[(''data'', PList [])]"]
  have "update grid_distance (Response 200 (Parsed (PDict [(''data'', PList [])])))
       (origin_sensor, fresh_world) =
        (Inr (), origin_sensor\<lparr>attributes := [], state := PNone\<rparr>,
         fresh_world\<lparr>requests := requests fresh_world @ [request_of origin_sensor]\<rparr>)"
    by blast
  then have c: "update grid_distance (Response 200 (Parsed (PDict [(''data'', PList [])])))
       (origin_sensor, fresh_world) =
     (Inr (), origin_sensor, \<lparr>requests = [request_of origin_sensor], error_log = []\<rparr>)"
    by (simp add: reset fresh_world_def)
  from a b c show ?thesis
    by blast
qed

text \<open>
  C6 as stated fails: an answer with an empty vehicle list is absorbed and nothing is
  logged.
\<close>

theorem update_empty_list_counterexample:
  "update grid_distance (Response 200 (Parsed (PDict [(''data'', PList [])])))
     (origin_sensor, \<lparr>requests = [], error_log = []\<rparr>) =
   (Inr (), origin_sensor, \<lparr>requests = [request_of origin_sensor], error_log = []\<rparr>)"
  by code_simp

subsection \<open>C7: when \<open>update\<close> returns\<close>

text \<open>
  C7, as the code has it. \<open>update\<close> returns without raising when the fetch fails, and
  then leaves an unknown reading and a longer log; and when the fetch yields a falsy
  value, an object without \<^verbatim>\<open>data\<close>, or an object whose \<^verbatim>\<open>data\<close> is falsy or a list of
  vehicle records: objects with finite numbers under \<^verbatim>\<open>lat\<close>, \<^verbatim>\<open>lng\<close> and
  \<^verbatim>\<open>batteryLevel\<close>, for whose coordinates the distance function returns a finite float.
\<close>

theorem update_returns_on_expected_results:
  assumes "fetch_failure net \<or>
           (\<exists>st result. net = Response st (Parsed result) \<and>
              result_ok distance (latitude s) (longitude s) result)"
  shows "fst (update distance net (s, w)) = Inr () \<and>
         (fetch_failure net \<longrightarrow>
            state (fst (snd (update distance net (s, w)))) = PNone \<and>
            attributes (fst (snd (update distance net (s, w)))) = [] \<and>
            length (error_log w) < length (error_log (snd (snd (update distance net (s, w))))))"
proof (cases "fetch_failure net")
  case True
  from update_fetch_failure [OF True, of distance s w] True show ?thesis
    by auto
next
  case False
  with assms obtain st result where net: "net = Response st (Parsed result)"
    and ok: "result_ok distance (latitude s) (longitude s) result"
    by blast
  from False net have st: "\<not> error_status st"
    by simp
  have "fst (update distance (Response st (Parsed result)) (s, w)) = Inr ()"
  proof (cases "\<exists>d. result = PDict d")
    case True
    then obtain d where d: "result = PDict d" ..
    show ?thesis
    proof (cases "map_of d ''data''")
      case None
      with update_missing_data [OF st None, of distance s w] d show ?thesis
        by simp
    next
      case (Some vehicles)
      with ok d have v: "vehicles_ok distance (latitude s) (longitude s) vehicles"
        by (simp add: result_ok_def)
      show ?thesis
      proof (cases "\<exists>vs. vehicles = PList vs")
        case True
        then obtain vs where "vehicles = PList vs" ..
        with v have "list_all (\<lambda>v. vehicle_distance distance (latitude s) (longitude s) v \<noteq> None \<and>
                          vehicle_attributes v \<noteq> None) vs"
          unfolding vehicles_ok_def list_all_iff
          using vehicle_ok_distance_attributes by auto
        with \<open>vehicles = PList vs\<close> Some d update_vehicles_returns [OF st, of d vs distance s w]
        show ?thesis
          by simp
      next
        case False
        with v have "\<not> truthy vehicles"
          by (cases vehicles) (simp_all add: vehicles_ok_def)
        with update_falsy_data [OF st Some, of distance s w] d show ?thesis
          by simp
      qed
    qed
  next
    case False
    with ok have "\<not> truthy result"
      by (cases result) (simp_all add: result_ok_def)
    with update_falsy_result [OF st this, of distance s w] show ?thesis
      by simp
  qed
  with False net show ?thesis
    by simp
qed

theorem update_returns_on_expected_results_witness:
  "fst (update grid_distance ConnectionFailed (origin_sensor, fresh_world)) = Inr () \<and>
   state (fst (snd (update grid_distance ConnectionFailed (origin_sensor, fresh_world)))) = PNone \<and>
   fst (update grid_distance (Response 200 (Parsed (PDict [(''message'', PStr ''no'')])))
          (origin_sensor, fresh_world)) = Inr () \<and>
   fst (update grid_distance
          (Response 200 (Parsed (vehicles_json [vehicle_json 20 0 30, vehicle_json 10 0 60])))
          (origin_sensor, fresh_world)) = Inr ()"
proof -
  have a: "fetch_failure ConnectionFailed \<or>
           (\<exists>st result. ConnectionFailed = Response st (Parsed result) \<and>
              result_ok grid_distance (latitude origin_sensor) (longitude origin_sensor) result)"
    by simp
  have "result_ok grid_distance (latitude origin_sensor) (longitude origin_sensor)
          (PDict [(''message'', PStr ''no'')])"
    by (simp add: result_ok_def)
  then have b: "fetch_failure (Response 200 (Parsed (PDict [(''message'', PStr ''no'')]))) \<or>
           (\<exists>st result. Response 200 (Parsed (PDict [(''message'', PStr ''no'')])) =
                Response st (Parsed result) \<and>
              result_ok grid_distance (latitude origin_sensor) (longitude origin_sensor) result)"
    by blast
  have "result_ok grid_distance (latitude origin_sensor) (longitude origin_sensor)
          (vehicles_json [vehicle_json 20 0 30, vehicle_json 10 0 60])"
    by (simp add: result_ok_def vehicles_ok_def vehicle_ok_def vehicles_json_def
        vehicle_json_def grid_distance_def origin_sensor_def TierNearestScooterSensor_def)
  then have c: "fetch_failure
             (Response 200 (Parsed (vehicles_json [vehicle_json 20 0 30, vehicle_json 10 0 60]))) \<or>
           (\<exists>st result.
              Response 200 (Parsed (vehicles_json [vehicle_json 20 0 30, vehicle_json 10 0 60])) =
                Response st (Parsed result) \<and>
              result_ok grid_distance (latitude origin_sensor) (longitude origin_sensor) result)"
    by blast
  from update_returns_on_expected_results [OF a, of fresh_world]
    update_returns_on_expected_results [OF b, of fresh_world]
    update_returns_on_expected_results [OF c, of fresh_world]
  show ?thesis
    by simp
qed

text \<open>
  C7 as stated fails: a truthy body that is not an object raises \<^verbatim>\<open>TypeError\<close> at
  \<^verbatim>\<open>result["data"]\<close>, where only \<^verbatim>\<open>KeyError\<close> is caught, and a vehicle without
  \<^verbatim>\<open>lat\<close> raises \<^verbatim>\<open>KeyError\<close> in the loop, outside any handler. Both escape before the
  distance function is called.
\<close>

theorem update_raises_counterexample:
  "fst (update grid_distance (Response 200 (Parsed (PList [PInt 1])))
          (origin_sensor, fresh_world)) = Inl TypeError \<and>
   fst (update grid_distance
          (Response 200 (Parsed (PDict [(''data'', PList [PDict [(''id'', PStr ''scooter'')]])])))
          (origin_sensor, fresh_world)) = Inl (KeyError ''lat'')"
  by code_simp

text \<open>
  The battery level has to be finite: a body with \<^verbatim>\<open>"batteryLevel": 1e999\<close> parses to
  an infinity, for which \<^verbatim>\<open>round\<close> raises \<^verbatim>\<open>OverflowError\<close> in the fourth assignment
  (a NaN raises \<^verbatim>\<open>ValueError\<close> there), after the state and the coordinates have been set.
\<close>

lemma update_infinite_battery_raises:
  "update grid_distance
     (Response 200 (Parsed (vehicles_json
        [PDict [(''lat'', PFloat (525 / 10)), (''lng'', PFloat (134 / 10)),
                (''batteryLevel'', PInfinity)]])))
     (origin_sensor, fresh_world) =
   (Inl OverflowError,
    origin_sensor\<lparr>state := PInt 66,
      attributes := [(ATTR_LATITUDE, PFloat (525 / 10)), (ATTR_LONGITUDE, PFloat (134 / 10))]\<rparr>,
    \<lparr>requests = [request_of origin_sensor], error_log = []\<rparr>)"
  by code_simp

lemma update_nan_battery_raises:
  "fst (update grid_distance
     (Response 200 (Parsed (vehicles_json
        [PDict [(''lat'', PFloat (525 / 10)), (''lng'', PFloat (134 / 10)),
                (''batteryLevel'', PNaN)]])))
     (origin_sensor, fresh_world)) = Inl ValueError"
  by code_simp

subsection \<open>C8: rounding of the attributes\<close>

text \<open>
  C8. In a cycle that selects vehicle \<open>i\<close>, whose latitude and longitude are the floats
  \<open>x\<close> and \<open>y\<close> and whose battery level is a number \<open>z\<close>, the reported latitude and
  longitude are decimals with five places, each nearest to the coordinate it reports, and
  the reported battery level is an integer nearest to \<open>z\<close>. The evaluation below is the
  example of the specification: latitude 52.123456 is reported as 52.12346.
\<close>

theorem update_rounds_attributes:
  assumes st: "\<not> error_status st"
    and data: "map_of d ''data'' = Some (PList vs)"
    and ds: "map (vehicle_distance distance (latitude s) (longitude s)) vs = map Some qs"
    and i: "i < length vs"
    and least: "\<forall>j<length vs. qs ! i \<le> qs ! j"
    and first: "\<forall>j<i. qs ! i < qs ! j"
    and x: "py_getitem (vs ! i) ''lat'' = Inr (PFloat x)"
    and y: "py_getitem (vs ! i) ''lng'' = Inr (PFloat y)"
    and b: "py_getitem (vs ! i) ''batteryLevel'' = Inr b"
    and z: "numeric b = Some z"
  shows "\<exists>m n k.
           attributes (fst (snd (update distance (Response st (Parsed (PDict d))) (s, w)))) =
             [(ATTR_LATITUDE, PFloat (of_int m / 10 ^ 5)),
              (ATTR_LONGITUDE, PFloat (of_int n / 10 ^ 5)),
              (ATTR_BATTERY_LEVEL, PInt k),
              (ATTR_ATTRIBUTION, PStr ATTRIBUTION)] \<and>
           m = round_half_even (x * 10 ^ 5) \<and> \<bar>of_int m / 10 ^ 5 - x\<bar> \<le> 1 / 200000 \<and>
           n = round_half_even (y * 10 ^ 5) \<and> \<bar>of_int n / 10 ^ 5 - y\<bar> \<le> 1 / 200000 \<and>
           k = round_half_even z \<and> \<bar>of_int k - z\<bar> \<le> 1 / 2"
proof -
  let ?m = "round_half_even (x * 10 ^ 5)" and ?n = "round_half_even (y * 10 ^ 5)"
  let ?k = "round_half_even z"
  have "vehicle_attributes (vs ! i) =
          Some [(ATTR_LATITUDE, PFloat (of_int ?m / 10 ^ 5)),
                (ATTR_LONGITUDE, PFloat (of_int ?n / 10 ^ 5)),
                (ATTR_BATTERY_LEVEL, PInt ?k),
                (ATTR_ATTRIBUTION, PStr ATTRIBUTION)]"
    using x y b py_round_numeric [OF z] by (simp add: vehicle_attributes_def)
  from update_nearest [OF st data ds i least first this, of w]
  have "attributes (fst (snd (update distance (Response st (Parsed (PDict d))) (s, w)))) =
          [(ATTR_LATITUDE, PFloat (of_int ?m / 10 ^ 5)),
           (ATTR_LONGITUDE, PFloat (of_int ?n / 10 ^ 5)),
           (ATTR_BATTERY_LEVEL, PInt ?k),
           (ATTR_ATTRIBUTION, PStr ATTRIBUTION)]"
    by simp
  moreover have "\<bar>of_int ?m / 10 ^ 5 - x\<bar> \<le> 1 / 200000"
    by (rule round_places_near)
  moreover have "\<bar>of_int ?n / 10 ^ 5 - y\<bar> \<le> 1 / 200000"
    by (rule round_places_near)
  moreover have "\<bar>of_int ?k - z\<bar> \<le> 1 / 2"
    by (rule round_half_even_near)
  ultimately show ?thesis
    by blast
qed

theorem update_rounds_attributes_witness:
  "attributes (fst (snd (update grid_distance
     (Response 200 (Parsed (vehicles_json
        [PDict [(''lat'', PFloat (52123456 / 1000000)), (''lng'', PFloat (13404954 / 1000000)),
                (''batteryLevel'', PFloat (175 / 2))]])))
     (origin_sensor, fresh_world)))) =
   [(ATTR_LATITUDE, PFloat (5212346 / 100000)),
    (ATTR_LONGITUDE, PFloat (1340495 / 100000)),
    (ATTR_BATTERY_LEVEL, PInt 88),
    (ATTR_ATTRIBUTION, PStr ATTRIBUTION)]"
proof -
  let ?v = "PDict [(''lat'', PFloat (52123456 / 1000000)), (''lng'', PFloat (13404954 / 1000000)),
                (''batteryLevel'', PFloat (175 / 2))]"
  let ?qs = "[52123456 / 1000000 + 13404954 / 1000000 :: rat]"
  have st: "\<not> error_status 200"
    by (simp add: error_status_def)
  have data: "map_of [(''data'', PList [?v])] ''data'' = Some (PList [?v])"
    by simp
  have ds: "map (vehicle_distance grid_distance (latitude origin_sensor) (longitude origin_sensor)) [?v]
              = map Some ?qs"
    by (simp add: vehicle_distance_def grid_distance_def origin_sensor_def
        TierNearestScooterSensor_def)
  have i: "0 < length [?v]"
    by simp
  have least: "\<forall>j<length [?v]. ?qs ! 0 \<le> ?qs ! j"
    by simp
  have first: "\<forall>j<0. ?qs ! 0 < ?qs ! j"
    by simp
  have x: "py_getitem ([?v] ! 0) ''lat'' = Inr (PFloat (52123456 / 1000000))"
    and y: "py_getitem ([?v] ! 0) ''lng'' = Inr (PFloat (13404954 / 1000000))"
    and b: "py_getitem ([?v] ! 0) ''batteryLevel'' = Inr (PFloat (175 / 2))"
    and z: "numeric (PFloat (175 / 2)) = Some (175 / 2)"
    by simp_all
  have r: "round_half_even (52123456 / 1000000 * 10 ^ 5) = 5212346"
    "round_half_even (13404954 / 1000000 * 10 ^ 5) = 1340495"
    "round_half_even (175 / 2) = 88"
    by code_simp+
  from update_rounds_attributes [OF st data ds i least first x y b z, of fresh_world]
  show ?thesis
    unfolding r by (auto simp add: vehicles_json_def)
qed

subsection \<open>C9: truthiness decides\<close>

text \<open>
  C9. \<open>update\<close> tests the fetch result for truth, not for \<^verbatim>\<open>None\<close>. A falsy result that
  is not \<^verbatim>\<open>None\<close> (an empty object, an empty array) is handled exactly as \<^verbatim>\<open>None\<close> is: the
  message about an empty result is logged and the reading is unknown. A truthy result whose
  \<^verbatim>\<open>data\<close> item is the empty list leaves the reading unknown and logs nothing.
\<close>

theorem update_tests_truthiness:
  assumes st: "\<not> error_status st"
  shows "(\<not> truthy result \<longrightarrow>
            update distance (Response st (Parsed result)) (s, w) =
              update distance (Response st (Parsed PNone)) (s, w) \<and>
            update distance (Response st (Parsed result)) (s, w) =
              (Inr (), s\<lparr>attributes := [], state := PNone\<rparr>,
               w\<lparr>requests := requests w @ [request_of s],
                  error_log := error_log w @ [EmptyResult]\<rparr>)) \<and>
         (truthy result \<and> py_getitem result ''data'' = Inr (PList []) \<longrightarrow>
            update distance (Response st (Parsed result)) (s, w) =
              (Inr (), s\<lparr>attributes := [], state := PNone\<rparr>,
               w\<lparr>requests := requests w @ [request_of s]\<rparr>))"
proof -
  have falsy: "update distance (Response st (Parsed r)) (s, w) =
              (Inr (), s\<lparr>attributes := [], state := PNone\<rparr>,
               w\<lparr>requests := requests w @ [request_of s],
                  error_log := error_log w @ [EmptyResult]\<rparr>)" if "\<not> truthy r" for r
    using that
    by (simp add: update_def get_vehicles_parsed [OF st] read_vehicles_falsy log_error_def
        request_of_def)
  have empty: "update distance (Response st (Parsed result)) (s, w) =
              (Inr (), s\<lparr>attributes := [], state := PNone\<rparr>,
               w\<lparr>requests := requests w @ [request_of s]\<rparr>)"
    if "py_getitem result ''data'' = Inr (PList [])"
  proof -
    from that obtain d where "result = PDict d" "map_of d ''data'' = Some (PList [])"
      by (cases result) (auto split: option.splits)
    then show ?thesis
      by (simp add: update_def get_vehicles_parsed [OF st] read_vehicles_data request_of_def)
  qed
  from falsy [of result] falsy [of PNone] empty show ?thesis
    by simp
qed

theorem update_tests_truthiness_witness:
  "update grid_distance (Response 200 (Parsed (PDict []))) (origin_sensor, fresh_world) =
     update grid_distance (Response 200 (Parsed PNone)) (origin_sensor, fresh_world) \<and>
   update grid_distance (Response 200 (Parsed (PList []))) (origin_sensor, fresh_world) =
     (Inr (), origin_sensor,
      \<lparr>requests = [request_of origin_sensor], error_log = [EmptyResult]\<rparr>) \<and>
   update grid_distance (Response 200 (Parsed (vehicles_json []))) (origin_sensor, fresh_world) =
     (Inr (), origin_sensor, \<lparr>requests = [request_of origin_sensor], error_log = []\<rparr>)"
proof -
  have st: "\<not> error_status 200"
    by (simp add: error_status_def)
  have logged: "fresh_world\<lparr>requests := requests fresh_world @ [request_of origin_sensor],
             error_log := error_log fresh_world @ [EmptyResult]\<rparr> =
           \<lparr>requests = [request_of origin_sensor], error_log = [EmptyResult]\<rparr>"
    and silent: "fresh_world\<lparr>requests := requests fresh_world @ [request_of origin_sensor]\<rparr> =
           \<lparr>requests = [request_of origin_sensor], error_log = []\<rparr>"
    and reset: "origin_sensor\<lparr>attributes := [], state := PNone\<rparr> = origin_sensor"
    by (simp_all add: fresh_world_def origin_sensor_def TierNearestScooterSensor_def)
  have f1: "\<not> truthy (PDict [])" and f2: "\<not> truthy (PList [])"
    and f3: "truthy (vehicles_json []) \<and> py_getitem (vehicles_json []) ''data'' = Inr (PList [])"
    by (simp_all add: vehicles_json_def)
  note t = update_tests_truthiness [OF st, of _ grid_distance origin_sensor fresh_world]
  have "update grid_distance (Response 200 (Parsed (PDict []))) (origin_sensor, fresh_world) =
     update grid_distance (Response 200 (Parsed PNone)) (origin_sensor, fresh_world)"
    using t [of "PDict []"] f1 by blast
  moreover
  have "update grid_distance (Response 200 (Parsed (PList []))) (origin_sensor, fresh_world) =
     (Inr (), origin_sensor,
      \<lparr>requests = [request_of origin_sensor], error_log = [EmptyResult]\<rparr>)"
    using t [of "PList []"] f2 unfolding logged reset by blast
  moreover
  have "update grid_distance (Response 200 (Parsed (vehicles_json []))) (origin_sensor, fresh_world) =
     (Inr (), origin_sensor, \<lparr>requests = [request_of origin_sensor], error_log = []\<rparr>)"
    using t [of "vehicles_json []"] f3 unfolding silent reset by blast
  ultimately show ?thesis
    by blast
qed

subsection \<open>C10: the shape of a reading\<close>



text \<open>
  The invariant is about calls that return. A call that raises among the five assignments
  of lines 154 to 158 leaves the state set and the attributes incomplete; here the nearest
  vehicle has no battery level.
\<close>

lemma update_raising_leaves_partial_reading:
  "update grid_distance
     (Response 200 (Parsed (vehicles_json [PDict [(''lat'', PFloat 20), (''lng'', PFloat 0)]])))
     (origin_sensor, fresh_world) =
   (Inl (KeyError ''batteryLevel''),
    origin_sensor\<lparr>state := PInt 20,
      attributes := [(ATTR_LATITUDE, PFloat 20), (ATTR_LONGITUDE, PFloat 0)]\<rparr>,
    \<lparr>requests = [request_of origin_sensor], error_log = []\<rparr>)"
  by code_simp

end
